theory Spec2Isabelle
  imports Complex_Main "HOL-Library.Sublist" "HOL-Library.Log_Nat"
begin

section \<open>GMX Risk Guard: the position risk calculator\<close>

text \<open>
  A shallow embedding of \<^verbatim>\<open>src/lib/gmx-calculations\<close> and of the tables of
  \<^verbatim>\<open>src/lib/constants.ts\<close> it reads.

  Numbers. The module is embedded twice. In the first embedding a TypeScript
  \<^verbatim>\<open>number\<close> is a \<^typ>\<open>real\<close>: arithmetic is exact, and the values NaN and Infinity
  do not exist. It carries the statements about which errors the validator reports, when
  the liquidation calculator throws, which of its inputs a function reads, and the
  algebraic form of a returned field. The source never throws on arithmetic (a division
  by zero gives Infinity or NaN there), so the only error branch of the model is the
  explicit \<^verbatim>\<open>throw\<close> of \<^verbatim>\<open>calculateLiquidationPrice\<close>. In HOL \<open>x / 0 = 0\<close>; every
  theorem of the first embedding that states the value of a quotient carries the
  hypothesis that makes its divisor non-zero.

  In the second embedding (section \<open>The binary64 embedding\<close>) a \<^verbatim>\<open>number\<close> is an
  IEEE 754 binary64 value, with rounding to nearest, overflow, underflow, signed zeros,
  infinities and NaN. It carries the statements that compare computed numbers: the side
  of the entry price on which the liquidation price lies, the dependence of
  \<^verbatim>\<open>distancePercentage\<close> on the leverage and of \<^verbatim>\<open>totalFees\<close> on the hours.

  Strings are \<^typ>\<open>string\<close>; \<^verbatim>\<open>===\<close> on strings is equality, and \<^verbatim>\<open>!asset\<close> holds
  exactly for the empty string.
\<close>

type_synonym number = real

subsection \<open>constants.ts\<close>

text \<open>
  The entries of \<^verbatim>\<open>SUPPORTED_ASSETS\<close> are declared \<^verbatim>\<open>as const\<close>; their numeric
  fields are integer literals and are kept as integers. Where the code compares one
  with a number it is embedded with \<open>of_int\<close>, where the code renders one in a
  template string it is printed in decimal by \<open>show_int\<close>.
\<close>

record AssetConfig =
  symbol :: string
  name :: string
  address :: string
  decimals :: int
  priceDecimals :: int
  minLeverage :: int
  maxLeverage :: int
  defaultLeverage :: int

definition SUPPORTED_ASSETS :: "AssetConfig list" where
  "SUPPORTED_ASSETS =
    [ \<lparr> symbol = ''AVAX'', name = ''Avalanche'',
        address = ''0xB31f66AA3C1e785363F0875A1B74E27b85FD66c7'',
        decimals = 18, priceDecimals = 8,
        minLeverage = 1, maxLeverage = 50, defaultLeverage = 5 \<rparr>,
      \<lparr> symbol = ''BTC'', name = ''Bitcoin'',
        address = ''0x50b7545627a5162F82A992c33b87aDc75187B218'',
        decimals = 8, priceDecimals = 8,
        minLeverage = 1, maxLeverage = 50, defaultLeverage = 3 \<rparr>,
      \<lparr> symbol = ''ETH'', name = ''Ethereum'',
        address = ''0x49D5c2BdFfac6CE2BFdB6640F4F80f226bc10bAB'',
        decimals = 18, priceDecimals = 8,
        minLeverage = 1, maxLeverage = 50, defaultLeverage = 3 \<rparr>,
      \<lparr> symbol = ''USDC'', name = ''USD Coin'',
        address = ''0xB97EF9Ef8734C71904D8002F8b6Bc66Dd9c48a6E'',
        decimals = 6, priceDecimals = 8,
        minLeverage = 1, maxLeverage = 50, defaultLeverage = 5 \<rparr> ]"

record FeeStructure =
  swapFee :: number
  positionFee :: number
  liquidationFee :: number
  borrowingFee :: number
  fundingRate :: number

definition FEE_STRUCTURE :: FeeStructure where
  "FEE_STRUCTURE =
    \<lparr> swapFee = 5 / 10000,
      positionFee = 1 / 10000,
      liquidationFee = 2 / 100,
      borrowingFee = 1 / 10000,
      fundingRate = 1 / 10000 \<rparr>"

subsection \<open>The value objects of gmx-calculations\<close>

text \<open>
  The value objects are parametrised by the representation \<open>'n\<close> of a
  \<^verbatim>\<open>number\<close>, so that the same records serve the exact embedding and the binary64
  embedding below.
\<close>

record 'n PositionParams =
  asset :: string
  collateral :: 'n
  leverage :: 'n
  isLong :: bool
  entryPrice :: 'n

record 'n LiquidationResult =
  liquidationPrice :: 'n
  distanceToLiquidation :: 'n
  distancePercentage :: 'n
  marginRatio :: 'n

record PnLResult =
  pnl :: number
  pnlPercentage :: number
  roi :: number
  breakevenPrice :: number

record 'n FeeResult =
  positionFee :: 'n
  borrowingFee :: 'n
  fundingFee :: 'n
  totalFees :: 'n

record RiskRewardResult =
  riskRewardRatio :: number
  expectedValue :: number
  probabilityOfProfit :: number
  maxLoss :: number
  maxProfit :: number

record ValidationResult =
  isValid :: bool
  errors :: "string list"

text \<open>A thrown \<^verbatim>\<open>Error\<close> carries its message.\<close>

datatype error = Error string

subsection \<open>Rendering an integer in a template string\<close>

definition digit_char :: "nat \<Rightarrow> char" where
  "digit_char d = ''0123456789'' ! d"

function show_nat :: "nat \<Rightarrow> string" where
  "show_nat n = (if n < 10 then [digit_char n] else show_nat (n div 10) @ [digit_char (n mod 10)])"
  by pat_completeness auto
termination
  by (relation "measure (\<lambda>n. n)") auto

declare show_nat.simps [simp del]

definition show_int :: "int \<Rightarrow> string" where
  "show_int i = (if i < 0 then ''-'' @ show_nat (nat (- i)) else show_nat (nat i))"

subsection \<open>calculateLiquidationPrice\<close>

definition findAsset :: "string \<Rightarrow> AssetConfig option" where
  "findAsset s = find (\<lambda>a. symbol a = s) SUPPORTED_ASSETS"

definition liquidationThreshold :: number where
  "liquidationThreshold = 85 / 100"

definition calculateLiquidationPrice :: "number PositionParams \<Rightarrow> error + number LiquidationResult" where
  "calculateLiquidationPrice params =
    (case findAsset (asset params) of
       None \<Rightarrow> Inl (Error (''Asset '' @ asset params @ '' not supported''))
     | Some assetConfig \<Rightarrow>
        (let positionSize = collateral params * leverage params;
             marginRatio = 1 / leverage params;
             liquidationPrice =
               (if isLong params
                then entryPrice params * (1 - marginRatio * liquidationThreshold)
                else entryPrice params * (1 + marginRatio * liquidationThreshold));
             distanceToLiquidation = \<bar>entryPrice params - liquidationPrice\<bar>;
             distancePercentage = (distanceToLiquidation / entryPrice params) * 100
         in Inr \<lparr> liquidationPrice = liquidationPrice,
                  distanceToLiquidation = distanceToLiquidation,
                  distancePercentage = distancePercentage,
                  marginRatio = marginRatio * 100 \<rparr>))"

subsection \<open>calculateTotalFees and calculatePnL\<close>

definition calculateTotalFees :: "number PositionParams \<Rightarrow> number \<Rightarrow> number FeeResult" where
  "calculateTotalFees params hours =
    (let positionSize = collateral params * leverage params;
         positionFee = positionSize * FeeStructure.positionFee FEE_STRUCTURE;
         borrowingFee = positionSize * FeeStructure.borrowingFee FEE_STRUCTURE * hours;
         fundingFee = positionSize * fundingRate FEE_STRUCTURE * hours;
         totalFees = positionFee + borrowingFee + fundingFee
     in \<lparr> positionFee = positionFee,
          borrowingFee = borrowingFee,
          fundingFee = fundingFee,
          totalFees = totalFees \<rparr>)"

definition calculatePnL :: "number PositionParams \<Rightarrow> number \<Rightarrow> PnLResult" where
  "calculatePnL params currentPrice =
    (let positionSize = collateral params * leverage params;
         priceChange = currentPrice - entryPrice params;
         priceChangePercentage = (priceChange / entryPrice params) * 100;
         pnl = (if isLong params
                then positionSize * (priceChangePercentage / 100)
                else positionSize * (- priceChangePercentage / 100));
         pnlPercentage = (if isLong params
                then priceChangePercentage * leverage params
                else - priceChangePercentage * leverage params);
         roi = (pnl / collateral params) * 100;
         totalFees = totalFees (calculateTotalFees params 24);
         breakevenPnL = totalFees;
         breakevenPriceChange = (breakevenPnL / positionSize) * 100;
         breakevenPrice =
           (if isLong params
            then entryPrice params * (1 + breakevenPriceChange / 100)
            else entryPrice params * (1 - breakevenPriceChange / 100))
     in \<lparr> pnl = pnl,
          pnlPercentage = pnlPercentage,
          roi = roi,
          breakevenPrice = breakevenPrice \<rparr>)"

subsection \<open>calculateRiskReward\<close>

definition calculateRiskReward :: "number PositionParams \<Rightarrow> number \<Rightarrow> number \<Rightarrow> RiskRewardResult" where
  "calculateRiskReward params stopLoss takeProfit =
    (let maxLoss = (if isLong params
                    then \<bar>entryPrice params - stopLoss\<bar>
                    else \<bar>stopLoss - entryPrice params\<bar>);
         maxProfit = (if isLong params
                    then \<bar>takeProfit - entryPrice params\<bar>
                    else \<bar>entryPrice params - takeProfit\<bar>);
         riskRewardRatio = maxProfit / maxLoss;
         probabilityOfProfit = 1 / (1 + riskRewardRatio);
         expectedValue = (maxProfit * probabilityOfProfit) - (maxLoss * (1 - probabilityOfProfit))
     in \<lparr> riskRewardRatio = riskRewardRatio,
          expectedValue = expectedValue,
          probabilityOfProfit = probabilityOfProfit * 100,
          maxLoss = maxLoss,
          maxProfit = maxProfit \<rparr>)"

subsection \<open>validatePosition\<close>

text \<open>
  \<^verbatim>\<open>errors.push\<close> appends at the end; each check is its own statement, so the list
  is threaded through the five checks in the order of the source.
\<close>

definition push :: "string list \<Rightarrow> string \<Rightarrow> string list" where
  "push es e = es @ [e]"

definition validatePosition :: "number PositionParams \<Rightarrow> ValidationResult" where
  "validatePosition params =
    (let errors0 = [];
         errors1 = (if asset params = [] then push errors0 ''Asset is required'' else errors0);
         errors2 = (if collateral params \<le> 0
                    then push errors1 ''Collateral must be greater than 0'' else errors1);
         errors3 = (if leverage params < 1 \<or> leverage params > 50
                    then push errors2 ''Leverage must be between 1x and 50x'' else errors2);
         errors4 = (if entryPrice params \<le> 0
                    then push errors3 ''Entry price must be greater than 0'' else errors3);
         errors5 = (case findAsset (asset params) of
                      None \<Rightarrow> errors4
                    | Some assetConfig \<Rightarrow>
                        if leverage params > of_int (maxLeverage assetConfig)
                        then push errors4 (''Maximum leverage for '' @ asset params @ '' is ''
                                            @ show_int (maxLeverage assetConfig) @ ''x'')
                        else errors4)
     in \<lparr> isValid = (length errors5 = 0), errors = errors5 \<rparr>)"

text \<open>
  What the last check of \<^verbatim>\<open>validatePosition\<close> pushes: nothing when the symbol is
  not found, else the asset-specific message when the leverage exceeds the asset's
  maximum. It is used to state the list of errors in closed form.
\<close>

definition maxLeverageErrors :: "number PositionParams \<Rightarrow> string list" where
  "maxLeverageErrors p =
    (case findAsset (asset p) of
       None \<Rightarrow> []
     | Some a \<Rightarrow>
         if leverage p > of_int (maxLeverage a)
         then [''Maximum leverage for '' @ asset p @ '' is '' @ show_int (maxLeverage a) @ ''x'']
         else [])"

section \<open>The binary64 embedding\<close>

text \<open>
  The claims that compare computed numbers (a strict inequality, a monotone dependence
  on an argument) depend on how a \<^verbatim>\<open>number\<close> rounds and overflows. For them the
  calculators are embedded a second time over IEEE 754 binary64 values, which is what a
  TypeScript \<^verbatim>\<open>number\<close> is: every arithmetic operation rounds the exact result to the
  nearest representable value, ties to even, overflows to an infinity and underflows
  through the subnormal numbers to a signed zero.

  A value is NaN, an infinity with its sign bit, or a finite number given by its sign
  bit and its magnitude; \<open>Fin True 0\<close> is the negative zero.
\<close>

datatype double = NaN | Inf bool | Fin bool real

subsection \<open>Rounding to nearest, ties to even\<close>

function bitlength :: "int \<Rightarrow> nat" where
  "bitlength n = (if n \<le> 0 then 0 else Suc (bitlength (n div 2)))"
  by pat_completeness auto
termination
  by (relation "measure nat") auto

declare bitlength.simps [simp del]

text \<open>\<open>rhe\<close> rounds a real to the nearest integer, a tie to the even one.\<close>

definition rhe :: "real \<Rightarrow> int" where
  "rhe x =
    (let f = \<lfloor>x\<rfloor>; d = x - of_int f
     in if d < 1 / 2 then f
        else if 1 / 2 < d then f + 1
        else if even f then f else f + 1)"

text \<open>
  \<open>min_sub\<close> is the smallest positive binary64 value, \<open>1 / 2 ^ 1074\<close>. A magnitude
  \<open>m\<close> with \<open>2 ^ e \<le> m < 2 ^ (e + 1)\<close> has 53 significant bits, so its neighbours
  are \<open>ulp m = 2 ^ (e - 52)\<close> apart; below \<open>1 / 2 ^ 1022\<close> the spacing stays \<open>min_sub\<close>.
  \<open>bexp m\<close> counts the binades above the subnormal range, and \<open>rmag\<close> rounds a
  magnitude to the grid of its binade.
\<close>

definition min_sub :: real where
  "min_sub = 1 / 2 ^ 1074"

definition bexp :: "real \<Rightarrow> nat" where
  "bexp m = bitlength \<lfloor>m / min_sub\<rfloor> - 53"

definition ulp :: "real \<Rightarrow> real" where
  "ulp m = 2 ^ bexp m * min_sub"

definition rmag :: "real \<Rightarrow> real" where
  "rmag m = of_int (rhe (m / ulp m)) * ulp m"

text \<open>A rounded magnitude of \<open>2 ^ 1024\<close> or more overflows to the infinity of its sign.\<close>

definition round64 :: "bool \<Rightarrow> real \<Rightarrow> double" where
  "round64 s m = (if 2 ^ 1024 \<le> rmag m then Inf s else Fin s (rmag m))"

text \<open>A numeric literal of the source denotes the binary64 value nearest to it.\<close>

definition lit :: "real \<Rightarrow> double" where
  "lit r = round64 (r < 0) \<bar>r\<bar>"

subsection \<open>The operators of the source on binary64 values\<close>

fun isNaN :: "double \<Rightarrow> bool" where
  "isNaN NaN = True"
| "isNaN _ = False"

fun isInf :: "double \<Rightarrow> bool" where
  "isInf (Inf _) = True"
| "isInf _ = False"

fun sign :: "double \<Rightarrow> bool" where
  "sign (Inf s) = s"
| "sign (Fin s _) = s"
| "sign NaN = False"

fun mag :: "double \<Rightarrow> real" where
  "mag (Fin _ m) = m"
| "mag _ = 0"

fun val :: "double \<Rightarrow> real" where
  "val (Fin s m) = (if s then - m else m)"
| "val _ = 0"

fun isZero :: "double \<Rightarrow> bool" where
  "isZero (Fin _ m) = (m = 0)"
| "isZero _ = False"

text \<open>\<^verbatim>\<open>x * y\<close>: infinity times zero is NaN, the sign is the exclusive or of the signs.\<close>

definition mul64 :: "double \<Rightarrow> double \<Rightarrow> double" where
  "mul64 x y =
    (if isNaN x \<or> isNaN y then NaN
     else if isInf x \<or> isInf y
          then (if isZero x \<or> isZero y then NaN else Inf (sign x \<noteq> sign y))
     else round64 (sign x \<noteq> sign y) (mag x * mag y))"

text \<open>
  \<^verbatim>\<open>x / y\<close> never throws: zero by zero and infinity by infinity are NaN, a non-zero
  number by zero is an infinity.
\<close>

definition div64 :: "double \<Rightarrow> double \<Rightarrow> double" where
  "div64 x y =
    (if isNaN x \<or> isNaN y then NaN
     else if isInf x then (if isInf y then NaN else Inf (sign x \<noteq> sign y))
     else if isInf y then Fin (sign x \<noteq> sign y) 0
     else if isZero y then (if isZero x then NaN else Inf (sign x \<noteq> sign y))
     else round64 (sign x \<noteq> sign y) (mag x / mag y))"

text \<open>
  \<^verbatim>\<open>x + y\<close>: infinities of opposite sign give NaN; an exact sum of zero is the
  positive zero unless both operands are negative zeros.
\<close>

definition add64 :: "double \<Rightarrow> double \<Rightarrow> double" where
  "add64 x y =
    (if isNaN x \<or> isNaN y then NaN
     else if isInf x then (if isInf y \<and> sign x \<noteq> sign y then NaN else x)
     else if isInf y then y
     else if val x + val y = 0 then Fin (sign x \<and> sign y) 0
     else round64 (val x + val y < 0) \<bar>val x + val y\<bar>)"

fun neg64 :: "double \<Rightarrow> double" where
  "neg64 NaN = NaN"
| "neg64 (Inf s) = Inf (\<not> s)"
| "neg64 (Fin s m) = Fin (\<not> s) m"

definition sub64 :: "double \<Rightarrow> double \<Rightarrow> double" where
  "sub64 x y = add64 x (neg64 y)"

text \<open>\<^verbatim>\<open>Math.abs\<close> clears the sign bit.\<close>

fun abs64 :: "double \<Rightarrow> double" where
  "abs64 NaN = NaN"
| "abs64 (Inf s) = Inf False"
| "abs64 (Fin s m) = Fin False m"

text \<open>\<^verbatim>\<open><\<close>, \<^verbatim>\<open><=\<close> and \<^verbatim>\<open>>\<close>: every comparison with NaN is false, the two zeros are equal.\<close>

definition lt64 :: "double \<Rightarrow> double \<Rightarrow> bool" where
  "lt64 x y \<longleftrightarrow>
    \<not> isNaN x \<and> \<not> isNaN y \<and>
    (if isInf x then sign x \<and> y \<noteq> x
     else if isInf y then \<not> sign y
     else val x < val y)"

definition le64 :: "double \<Rightarrow> double \<Rightarrow> bool" where
  "le64 x y \<longleftrightarrow>
    \<not> isNaN x \<and> \<not> isNaN y \<and>
    (if isInf x then sign x \<or> y = x
     else if isInf y then \<not> sign y
     else val x \<le> val y)"

definition gt64 :: "double \<Rightarrow> double \<Rightarrow> bool" where
  "gt64 x y = lt64 y x"

text \<open>
  The type \<^typ>\<open>double\<close> has a finite value for every real magnitude; the ones that
  are binary64 values are those that rounding leaves unchanged. \<open>is_double\<close> is the
  hypothesis that an input of a calculator is a value of the source's type.
\<close>

fun is_double :: "double \<Rightarrow> bool" where
  "is_double (Fin s m) = (0 \<le> m \<and> rmag m = m \<and> m < 2 ^ 1024)"
| "is_double _ = True"

fun isFinite :: "double \<Rightarrow> bool" where
  "isFinite (Fin _ _) = True"
| "isFinite _ = False"

text \<open>The values that are neither NaN nor negative (a zero of either sign is not negative).\<close>

fun nn :: "double \<Rightarrow> bool" where
  "nn NaN = False"
| "nn (Inf s) = (\<not> s)"
| "nn (Fin s m) = (0 \<le> m \<and> (s \<longrightarrow> m = 0))"

subsection \<open>calculateLiquidationPrice and calculateTotalFees on binary64 values\<close>

text \<open>
  The same statements as in the exact embedding, operator for operator and in the
  order of the source; \<^verbatim>\<open>a * b * c\<close> is \<^verbatim>\<open>(a * b) * c\<close>.
\<close>

definition calculateLiquidationPrice64 :: "double PositionParams \<Rightarrow> error + double LiquidationResult" where
  "calculateLiquidationPrice64 params =
    (case findAsset (asset params) of
       None \<Rightarrow> Inl (Error (''Asset '' @ asset params @ '' not supported''))
     | Some assetConfig \<Rightarrow>
        (let positionSize = mul64 (collateral params) (leverage params);
             marginRatio = div64 (lit 1) (leverage params);
             liquidationPrice =
               (if isLong params
                then mul64 (entryPrice params)
                       (sub64 (lit 1) (mul64 marginRatio (lit liquidationThreshold)))
                else mul64 (entryPrice params)
                       (add64 (lit 1) (mul64 marginRatio (lit liquidationThreshold))));
             distanceToLiquidation = abs64 (sub64 (entryPrice params) liquidationPrice);
             distancePercentage = mul64 (div64 distanceToLiquidation (entryPrice params)) (lit 100)
         in Inr \<lparr> liquidationPrice = liquidationPrice,
                  distanceToLiquidation = distanceToLiquidation,
                  distancePercentage = distancePercentage,
                  marginRatio = mul64 marginRatio (lit 100) \<rparr>))"

definition calculateTotalFees64 :: "double PositionParams \<Rightarrow> double \<Rightarrow> double FeeResult" where
  "calculateTotalFees64 params hours =
    (let positionSize = mul64 (collateral params) (leverage params);
         positionFee = mul64 positionSize (lit (FeeStructure.positionFee FEE_STRUCTURE));
         borrowingFee = mul64 (mul64 positionSize (lit (FeeStructure.borrowingFee FEE_STRUCTURE))) hours;
         fundingFee = mul64 (mul64 positionSize (lit (fundingRate FEE_STRUCTURE))) hours;
         totalFees = add64 (add64 positionFee borrowingFee) fundingFee
     in \<lparr> positionFee = positionFee,
          borrowingFee = borrowingFee,
          fundingFee = fundingFee,
          totalFees = totalFees \<rparr>)"

subsection \<open>Names for the values that the proofs follow through the calculators\<close>

text \<open>
  \<open>threshold64\<close> and \<open>rate64\<close> are the binary64 values of the literals \<^verbatim>\<open>0.85\<close> and
  \<^verbatim>\<open>0.0001\<close>. For a finite leverage \<open>ml\<close>, \<open>margin_part ml\<close> is
  \<^verbatim>\<open>marginRatio * liquidationThreshold\<close>, and \<open>long_factor ml\<close> and
  \<open>short_factor ml\<close> are the factors \<^verbatim>\<open>1 - marginRatio * liquidationThreshold\<close> and
  \<^verbatim>\<open>1 + marginRatio * liquidationThreshold\<close> of the entry price.
\<close>

text \<open>\<open>min_normal\<close> is the smallest normal binary64 value, \<open>1 / 2 ^ 1022\<close>.\<close>

definition min_normal :: real where
  "min_normal = 2 ^ 52 * min_sub"

definition threshold64 :: real where
  "threshold64 = 7656119366529843 / 9007199254740992"

definition rate64 :: real where
  "rate64 = 7378697629483821 / 73786976294838206464"

definition margin_part :: "real \<Rightarrow> real" where
  "margin_part ml = rmag (rmag (1 / ml) * threshold64)"

definition long_factor :: "real \<Rightarrow> real" where
  "long_factor ml = rmag (1 - margin_part ml)"

definition short_factor :: "real \<Rightarrow> real" where
  "short_factor ml = rmag (1 + margin_part ml)"

section \<open>The asset table\<close>

lemma all_maxLeverage_50: "\<forall>a \<in> set SUPPORTED_ASSETS. maxLeverage a = 50"
  by (simp add: SUPPORTED_ASSETS_def)

lemma findAsset_Some_mem: "findAsset s = Some a \<Longrightarrow> a \<in> set SUPPORTED_ASSETS \<and> symbol a = s"
  unfolding findAsset_def find_Some_iff by auto

lemma findAsset_Some_maxLeverage: "findAsset s = Some a \<Longrightarrow> maxLeverage a = 50"
  using all_maxLeverage_50 findAsset_Some_mem by blast

lemma findAsset_None_iff: "findAsset s = None \<longleftrightarrow> s \<notin> symbol ` set SUPPORTED_ASSETS"
  unfolding findAsset_def find_None_iff by auto


lemma findAsset_AVAX: "findAsset ''AVAX'' = Some (hd SUPPORTED_ASSETS)"
  by (simp add: findAsset_def SUPPORTED_ASSETS_def)

lemma maxLeverage_hd: "maxLeverage (hd SUPPORTED_ASSETS) = 50"
  by (simp add: SUPPORTED_ASSETS_def)

lemma show_int_50: "show_int 50 = ''50''"
  by (simp add: show_int_def show_nat.simps digit_char_def)

section \<open>The validator\<close>

lemma errors_validatePosition:
  "errors (validatePosition p) =
     (if asset p = [] then [''Asset is required''] else []) @
     (if collateral p \<le> 0 then [''Collateral must be greater than 0''] else []) @
     (if leverage p < 1 \<or> leverage p > 50 then [''Leverage must be between 1x and 50x''] else []) @
     (if entryPrice p \<le> 0 then [''Entry price must be greater than 0''] else []) @
     maxLeverageErrors p"
  by (simp add: validatePosition_def maxLeverageErrors_def Let_def push_def split: option.splits)

lemma isValid_validatePosition:
  "isValid (validatePosition p) \<longleftrightarrow> errors (validatePosition p) = []"
  by (simp add: validatePosition_def Let_def)


lemma maxLeverageErrors_cases:
  "maxLeverageErrors p = [] \<or>
   (leverage p > 50 \<and> maxLeverageErrors p = [''Maximum leverage for '' @ asset p @ '' is 50x''])"
  by (auto simp: maxLeverageErrors_def show_int_50 dest: findAsset_Some_maxLeverage split: option.splits)




text \<open>
  Claim C3. \<^verbatim>\<open>validatePosition\<close> is a total function that returns a record (it has no
  error branch) and accumulates violations: with leverage outside \<open>[1, 50]\<close> the
  result is invalid and lists the leverage error, with collateral \<open>\<le> 0\<close> the result
  is invalid and lists the collateral error, and with both violations both errors are
  in the list.
\<close>

theorem validatePosition_accumulates:
  "(leverage p < 1 \<or> leverage p > 50 \<longrightarrow>
      \<not> isValid (validatePosition p) \<and>
      ''Leverage must be between 1x and 50x'' \<in> set (errors (validatePosition p)))
   \<and> (collateral p \<le> 0 \<longrightarrow>
      \<not> isValid (validatePosition p) \<and>
      ''Collateral must be greater than 0'' \<in> set (errors (validatePosition p)))
   \<and> ((leverage p < 1 \<or> leverage p > 50) \<and> collateral p \<le> 0 \<longrightarrow>
      ''Leverage must be between 1x and 50x'' \<in> set (errors (validatePosition p)) \<and>
      ''Collateral must be greater than 0'' \<in> set (errors (validatePosition p)))"
  by (simp add: isValid_validatePosition errors_validatePosition)

text \<open>
  The claim at leverage 0 and at leverage 60, each with collateral 0: both errors are
  returned.
\<close>

theorem validatePosition_accumulates_witness:
  "\<not> isValid (validatePosition \<lparr> asset = ''AVAX'', collateral = 0, leverage = 0, isLong = True, entryPrice = 51/2 \<rparr>)
   \<and> ''Leverage must be between 1x and 50x'' \<in> set (errors (validatePosition \<lparr> asset = ''AVAX'', collateral = 0, leverage = 0, isLong = True, entryPrice = 51/2 \<rparr>))
   \<and> ''Collateral must be greater than 0'' \<in> set (errors (validatePosition \<lparr> asset = ''AVAX'', collateral = 0, leverage = 0, isLong = True, entryPrice = 51/2 \<rparr>))
   \<and> \<not> isValid (validatePosition \<lparr> asset = ''AVAX'', collateral = 0, leverage = 60, isLong = True, entryPrice = 51/2 \<rparr>)
   \<and> ''Leverage must be between 1x and 50x'' \<in> set (errors (validatePosition \<lparr> asset = ''AVAX'', collateral = 0, leverage = 60, isLong = True, entryPrice = 51/2 \<rparr>))
   \<and> ''Collateral must be greater than 0'' \<in> set (errors (validatePosition \<lparr> asset = ''AVAX'', collateral = 0, leverage = 60, isLong = True, entryPrice = 51/2 \<rparr>))"
  using validatePosition_accumulates [of "\<lparr> asset = ''AVAX'', collateral = 0, leverage = 0, isLong = True, entryPrice = 51/2 \<rparr>"]
        validatePosition_accumulates [of "\<lparr> asset = ''AVAX'', collateral = 0, leverage = 60, isLong = True, entryPrice = 51/2 \<rparr>"]
  by simp

section \<open>Risk and reward\<close>

text \<open>
  Claim C2 says that the returned \<^verbatim>\<open>probabilityOfProfit\<close> equals
  \<open>1 / (1 + riskRewardRatio)\<close>. The code returns that number times 100: a long
  position entered at 100 with stop-loss 90 and take-profit 110 has ratio 1 and
  \<^verbatim>\<open>probabilityOfProfit\<close> 50, not 1/2.
\<close>

theorem calculateRiskReward_probability_counterexample:
  "maxLoss (calculateRiskReward \<lparr> asset = ''AVAX'', collateral = 1000, leverage = 5, isLong = True, entryPrice = 100 \<rparr> 90 110) \<noteq> 0 \<and>
   probabilityOfProfit (calculateRiskReward \<lparr> asset = ''AVAX'', collateral = 1000, leverage = 5, isLong = True, entryPrice = 100 \<rparr> 90 110) = 50 \<and>
   probabilityOfProfit (calculateRiskReward \<lparr> asset = ''AVAX'', collateral = 1000, leverage = 5, isLong = True, entryPrice = 100 \<rparr> 90 110) \<noteq>
     1 / (1 + riskRewardRatio (calculateRiskReward \<lparr> asset = ''AVAX'', collateral = 1000, leverage = 5, isLong = True, entryPrice = 100 \<rparr> 90 110))"
  by (simp add: calculateRiskReward_def)

text \<open>
  Claim C2, amended. For every PositionParams, stop-loss and take-profit with
  \<^verbatim>\<open>maxLoss\<close> non-zero, the returned ratio is \<^verbatim>\<open>maxProfit / maxLoss\<close> and the returned
  \<^verbatim>\<open>probabilityOfProfit\<close> is the percentage \<open>(1 / (1 + riskRewardRatio)) * 100\<close>.
\<close>

theorem calculateRiskReward_probability_percent:
  assumes "maxLoss (calculateRiskReward p stopLoss takeProfit) \<noteq> 0"
  shows "riskRewardRatio (calculateRiskReward p stopLoss takeProfit) =
           maxProfit (calculateRiskReward p stopLoss takeProfit) /
           maxLoss (calculateRiskReward p stopLoss takeProfit)
       \<and> probabilityOfProfit (calculateRiskReward p stopLoss takeProfit) =
           (1 / (1 + riskRewardRatio (calculateRiskReward p stopLoss takeProfit))) * 100"
  by (simp add: calculateRiskReward_def Let_def)

text \<open>
  The amended claim at a short position entered at 100 with stop-loss 120 and
  take-profit 40: loss 20, profit 60, ratio 3, probability 25 percent.
\<close>

theorem calculateRiskReward_probability_percent_witness:
  "maxLoss (calculateRiskReward \<lparr> asset = ''AVAX'', collateral = 1000, leverage = 5, isLong = False, entryPrice = 100 \<rparr> 120 40) = 20 \<and>
   riskRewardRatio (calculateRiskReward \<lparr> asset = ''AVAX'', collateral = 1000, leverage = 5, isLong = False, entryPrice = 100 \<rparr> 120 40) = 3 \<and>
   probabilityOfProfit (calculateRiskReward \<lparr> asset = ''AVAX'', collateral = 1000, leverage = 5, isLong = False, entryPrice = 100 \<rparr> 120 40) = 25"
proof -
  have h: "maxLoss (calculateRiskReward \<lparr> asset = ''AVAX'', collateral = 1000, leverage = 5, isLong = False, entryPrice = 100 \<rparr> 120 40) \<noteq> 0"
    by (simp add: calculateRiskReward_def)
  have m: "maxLoss (calculateRiskReward \<lparr> asset = ''AVAX'', collateral = 1000, leverage = 5, isLong = False, entryPrice = 100 \<rparr> 120 40) = 20"
    "maxProfit (calculateRiskReward \<lparr> asset = ''AVAX'', collateral = 1000, leverage = 5, isLong = False, entryPrice = 100 \<rparr> 120 40) = 60"
    by (simp_all add: calculateRiskReward_def)
  show ?thesis using calculateRiskReward_probability_percent [OF h] m by simp
qed

section \<open>The liquidation calculator\<close>

lemma supported_AVAX: "''AVAX'' \<in> symbol ` set SUPPORTED_ASSETS"
  by (simp add: SUPPORTED_ASSETS_def)

lemma unsupported_DOGE: "''DOGE'' \<notin> symbol ` set SUPPORTED_ASSETS"
  by (simp add: SUPPORTED_ASSETS_def)

lemma findAsset_supported:
  "s \<in> symbol ` set SUPPORTED_ASSETS \<Longrightarrow> \<exists>a. findAsset s = Some a"
  using findAsset_None_iff [of s] by auto

lemma calculateLiquidationPrice_unfound:
  "findAsset (asset p) = None \<Longrightarrow>
   calculateLiquidationPrice p = Inl (Error (''Asset '' @ asset p @ '' not supported''))"
  by (simp add: calculateLiquidationPrice_def)

lemma calculateLiquidationPrice_found:
  "findAsset (asset p) = Some a \<Longrightarrow>
   calculateLiquidationPrice p =
     Inr \<lparr> liquidationPrice =
             (if isLong p then entryPrice p * (1 - (1 / leverage p) * liquidationThreshold)
              else entryPrice p * (1 + (1 / leverage p) * liquidationThreshold)),
           distanceToLiquidation =
             \<bar>entryPrice p - (if isLong p then entryPrice p * (1 - (1 / leverage p) * liquidationThreshold)
              else entryPrice p * (1 + (1 / leverage p) * liquidationThreshold))\<bar>,
           distancePercentage =
             (\<bar>entryPrice p - (if isLong p then entryPrice p * (1 - (1 / leverage p) * liquidationThreshold)
              else entryPrice p * (1 + (1 / leverage p) * liquidationThreshold))\<bar> / entryPrice p) * 100,
           marginRatio = (1 / leverage p) * 100 \<rparr>"
  by (simp add: calculateLiquidationPrice_def Let_def)

text \<open>
  Claim C4. \<^verbatim>\<open>calculateLiquidationPrice\<close> throws exactly when the asset symbol of
  its argument is not found in \<^verbatim>\<open>SUPPORTED_ASSETS\<close>, and what it throws is the
  unsupported-asset error; for every symbol of the list it returns a
  \<^verbatim>\<open>LiquidationResult\<close>.
\<close>

theorem calculateLiquidationPrice_throws_iff_unsupported:
  "((\<exists>e. calculateLiquidationPrice p = Inl e) \<longleftrightarrow> asset p \<notin> symbol ` set SUPPORTED_ASSETS)
   \<and> (asset p \<notin> symbol ` set SUPPORTED_ASSETS \<longrightarrow>
        calculateLiquidationPrice p = Inl (Error (''Asset '' @ asset p @ '' not supported'')))
   \<and> (asset p \<in> symbol ` set SUPPORTED_ASSETS \<longrightarrow> (\<exists>r. calculateLiquidationPrice p = Inr r))"
proof (cases "findAsset (asset p)")
  case None
  then show ?thesis
    using findAsset_None_iff [of "asset p"] by (simp add: calculateLiquidationPrice_unfound)
next
  case (Some a)
  then show ?thesis
    using findAsset_None_iff [of "asset p"] by (simp add: calculateLiquidationPrice_found)
qed

text \<open>The claim at a position on AVAX, which is in the list, and one on DOGE, which is not.\<close>

theorem calculateLiquidationPrice_throws_iff_unsupported_witness:
  "(\<exists>r. calculateLiquidationPrice \<lparr> asset = ''AVAX'', collateral = 1000, leverage = 5, isLong = True, entryPrice = 51/2 \<rparr> = Inr r)
   \<and> (\<nexists>e. calculateLiquidationPrice \<lparr> asset = ''AVAX'', collateral = 1000, leverage = 5, isLong = True, entryPrice = 51/2 \<rparr> = Inl e)
   \<and> calculateLiquidationPrice \<lparr> asset = ''DOGE'', collateral = 1000, leverage = 5, isLong = True, entryPrice = 51/2 \<rparr>
       = Inl (Error ''Asset DOGE not supported'')"
  using calculateLiquidationPrice_throws_iff_unsupported [of "\<lparr> asset = ''AVAX'', collateral = 1000, leverage = 5, isLong = True, entryPrice = 51/2 \<rparr>"]
        calculateLiquidationPrice_throws_iff_unsupported [of "\<lparr> asset = ''DOGE'', collateral = 1000, leverage = 5, isLong = True, entryPrice = 51/2 \<rparr>"]
        supported_AVAX unsupported_DOGE
  by simp

section \<open>Fees and profit and loss\<close>




text \<open>
  Claim C9. \<^verbatim>\<open>calculatePnL\<close> and \<^verbatim>\<open>calculateTotalFees\<close> return records and have no
  error branch. Two PositionParams that agree on collateral, leverage, direction and
  entry price give the same \<^verbatim>\<open>PnLResult\<close> for the same current price and the same
  \<^verbatim>\<open>FeeResult\<close> for the same hours, whatever their asset symbols are.
\<close>

theorem calculatePnL_calculateTotalFees_ignore_asset:
  assumes "collateral q = collateral p" and "leverage q = leverage p"
    and "isLong q = isLong p" and "entryPrice q = entryPrice p"
  shows "calculatePnL q currentPrice = calculatePnL p currentPrice
     \<and> calculateTotalFees q hours = calculateTotalFees p hours"
  using assms by (simp add: calculatePnL_def calculateTotalFees_def Let_def)

text \<open>The claim at DOGE, which is not in the asset table, against AVAX.\<close>

theorem calculatePnL_calculateTotalFees_ignore_asset_witness:
  "calculatePnL \<lparr> asset = ''DOGE'', collateral = 1000, leverage = 5, isLong = True, entryPrice = 51/2 \<rparr> (2805 / 100)
     = calculatePnL \<lparr> asset = ''AVAX'', collateral = 1000, leverage = 5, isLong = True, entryPrice = 51/2 \<rparr> (2805 / 100)
   \<and> calculateTotalFees \<lparr> asset = ''DOGE'', collateral = 1000, leverage = 5, isLong = True, entryPrice = 51/2 \<rparr> 24
     = calculateTotalFees \<lparr> asset = ''AVAX'', collateral = 1000, leverage = 5, isLong = True, entryPrice = 51/2 \<rparr> 24
   \<and> ''DOGE'' \<notin> symbol ` set SUPPORTED_ASSETS"
  using calculatePnL_calculateTotalFees_ignore_asset [of "\<lparr> asset = ''DOGE'', collateral = 1000, leverage = 5, isLong = True, entryPrice = 51/2 \<rparr>"
               "\<lparr> asset = ''AVAX'', collateral = 1000, leverage = 5, isLong = True, entryPrice = 51/2 \<rparr>"
               "2805 / 100" 24]
        unsupported_DOGE
  by simp

section \<open>The asset-specific leverage check\<close>

lemma validatePosition_error_cases:
  assumes "e \<in> set (errors (validatePosition p))"
  shows "e = ''Asset is required'' \<or> e = ''Collateral must be greater than 0''
       \<or> e = ''Leverage must be between 1x and 50x'' \<or> e = ''Entry price must be greater than 0''
       \<or> e \<in> set (maxLeverageErrors p)"
  using assms by (auto simp: errors_validatePosition split: if_splits)

text \<open>
  Claim C10. Every entry of \<^verbatim>\<open>SUPPORTED_ASSETS\<close> has \<^verbatim>\<open>maxLeverage\<close> 50, and whenever
  an error that starts with \<^verbatim>\<open>Maximum leverage for\<close> is in the errors of
  \<^verbatim>\<open>validatePosition\<close>, the generic leverage-range error is in the same list.
\<close>

theorem validatePosition_asset_max_leverage_redundant:
  "(\<forall>a \<in> set SUPPORTED_ASSETS. maxLeverage a = 50)
   \<and> (\<forall>e \<in> set (errors (validatePosition p)).
        prefix ''Maximum leverage for '' e \<longrightarrow>
        ''Leverage must be between 1x and 50x'' \<in> set (errors (validatePosition p)))"
proof -
  have "''Leverage must be between 1x and 50x'' \<in> set (errors (validatePosition p))"
    if e: "e \<in> set (errors (validatePosition p))" and pre: "prefix ''Maximum leverage for '' e" for e
  proof -
    from validatePosition_error_cases [OF e] pre have "e \<in> set (maxLeverageErrors p)"
      by auto
    then have "maxLeverageErrors p \<noteq> []" by auto
    then have "leverage p > 50" using maxLeverageErrors_cases [of p] by blast
    then show ?thesis by (simp add: errors_validatePosition)
  qed
  then show ?thesis using all_maxLeverage_50 by blast
qed

text \<open>The claim at AVAX with leverage 60: both leverage errors are reported.\<close>

theorem validatePosition_asset_max_leverage_redundant_witness:
  "maxLeverage (hd SUPPORTED_ASSETS) = 50
   \<and> ''Maximum leverage for AVAX is 50x'' \<in> set (errors (validatePosition \<lparr> asset = ''AVAX'', collateral = 1000, leverage = 60, isLong = True, entryPrice = 51/2 \<rparr>))
   \<and> ''Leverage must be between 1x and 50x'' \<in> set (errors (validatePosition \<lparr> asset = ''AVAX'', collateral = 1000, leverage = 60, isLong = True, entryPrice = 51/2 \<rparr>))"
proof -
  let ?p = "\<lparr> asset = ''AVAX'', collateral = 1000, leverage = 60, isLong = True, entryPrice = 51/2 \<rparr>"
  have m: "''Maximum leverage for AVAX is 50x'' \<in> set (errors (validatePosition ?p))"
    by (simp add: validatePosition_def findAsset_AVAX maxLeverage_hd show_int_50 push_def)
  have h: "hd SUPPORTED_ASSETS \<in> set SUPPORTED_ASSETS"
    by (simp add: SUPPORTED_ASSETS_def)
  have pre: "prefix ''Maximum leverage for '' ''Maximum leverage for AVAX is 50x''"
    by simp
  note c = validatePosition_asset_max_leverage_redundant [of ?p]
  from c have a: "\<forall>a \<in> set SUPPORTED_ASSETS. maxLeverage a = 50"
    by (rule conjunct1)
  from c have b: "\<forall>e \<in> set (errors (validatePosition ?p)).
        prefix ''Maximum leverage for '' e \<longrightarrow>
        ''Leverage must be between 1x and 50x'' \<in> set (errors (validatePosition ?p))"
    by (rule conjunct2)
  from a h have 1: "maxLeverage (hd SUPPORTED_ASSETS) = 50"
    by (rule bspec)
  from b m have "prefix ''Maximum leverage for '' ''Maximum leverage for AVAX is 50x'' \<longrightarrow>
        ''Leverage must be between 1x and 50x'' \<in> set (errors (validatePosition ?p))"
    by (rule bspec)
  from this pre have 2: "''Leverage must be between 1x and 50x'' \<in> set (errors (validatePosition ?p))"
    by (rule mp)
  from 1 m 2 show ?thesis by (intro conjI)
qed

section \<open>Rounding to binary64: monotone, idempotent, and evaluated inside a binade\<close>

lemma bitlength_floorlog: "bitlength n = floorlog 2 (nat n)"
proof (induction n rule: bitlength.induct)
  case (1 n)
  show ?case
  proof (cases "n \<le> 0")
    case True
    then show ?thesis by (simp add: bitlength.simps floorlog_def)
  next
    case False
    with 1 have "bitlength (n div 2) = floorlog 2 (nat (n div 2))" by simp
    also have "nat (n div 2) = nat n div 2" by (simp add: nat_div_distrib)
    finally show ?thesis using False
      by (subst bitlength.simps, subst compute_floorlog) simp
  qed
qed

lemma bitlength_mono: "m \<le> n \<Longrightarrow> bitlength m \<le> bitlength n"
  by (simp add: bitlength_floorlog floorlog_mono nat_mono)

lemma nat_less_two_power: "nat z < 2 ^ j \<longleftrightarrow> z < 2 ^ j" for z :: int
proof (cases "0 \<le> z")
  case True
  have "nat z < 2 ^ j \<longleftrightarrow> int (nat z) < int (2 ^ j)" by (simp only: of_nat_less_iff)
  with True show ?thesis by simp
next
  case False
  have "(0::int) < 2 ^ j" by simp
  with False have "z < 2 ^ j" by (simp only: not_le less_trans)
  with False show ?thesis by simp
qed

lemma floorlog_le_iff_less_power: "floorlog 2 n \<le> j \<longleftrightarrow> n < 2 ^ j"
proof (cases "n = 0")
  case True
  then show ?thesis by (simp add: floorlog_def)
next
  case False
  then have pos: "0 < n" by simp
  show ?thesis
  proof
    assume "floorlog 2 n \<le> j"
    then have "(2::nat) ^ floorlog 2 n \<le> 2 ^ j" by (simp add: power_increasing)
    moreover have "n < 2 ^ floorlog 2 n" using floorlog_bounds [OF pos, of 2] by simp
    ultimately show "n < 2 ^ j" by (rule less_le_trans [rotated])
  next
    assume a: "n < 2 ^ j"
    show "floorlog 2 n \<le> j"
    proof (rule ccontr)
      assume "\<not> floorlog 2 n \<le> j"
      then have "j \<le> floorlog 2 n - 1" by simp
      then have "(2::nat) ^ j \<le> 2 ^ (floorlog 2 n - 1)" by (simp add: power_increasing)
      moreover have "2 ^ (floorlog 2 n - 1) \<le> n" using floorlog_bounds [OF pos, of 2] by simp
      ultimately have "2 ^ j \<le> n" by (rule order_trans)
      with a show False by simp
    qed
  qed
qed

lemma bitlength_le_iff: "bitlength n \<le> j \<longleftrightarrow> n < 2 ^ j"
  by (simp only: bitlength_floorlog floorlog_le_iff_less_power nat_less_two_power)

lemma bitlength_floor_le_iff:
  "bitlength \<lfloor>x\<rfloor> \<le> j \<longleftrightarrow> x < 2 ^ j" for x :: real
proof -
  have "bitlength \<lfloor>x\<rfloor> \<le> j \<longleftrightarrow> \<lfloor>x\<rfloor> < 2 ^ j" by (rule bitlength_le_iff)
  also have "\<dots> \<longleftrightarrow> x < of_int (2 ^ j)" by (rule floor_less_iff)
  finally show ?thesis by simp
qed

lemma min_sub_pos: "0 < min_sub"
  by (simp add: min_sub_def)

lemma bexp_mono: "m1 \<le> m2 \<Longrightarrow> bexp m1 \<le> bexp m2"
proof -
  assume "m1 \<le> m2"
  then have "m1 / min_sub \<le> m2 / min_sub"
    using min_sub_pos by (simp add: divide_right_mono)
  then have "\<lfloor>m1 / min_sub\<rfloor> \<le> \<lfloor>m2 / min_sub\<rfloor>"
    by (rule floor_mono)
  then show ?thesis
    unfolding bexp_def by (intro diff_le_mono bitlength_mono)
qed

lemma bexp_upper: "m / min_sub < 2 ^ (bexp m + 53)"
proof -
  have "bitlength \<lfloor>m / min_sub\<rfloor> \<le> bexp m + 53" by (simp add: bexp_def)
  then show ?thesis by (simp only: bitlength_floor_le_iff simp_thms)
qed

lemma bexp_lower:
  assumes "0 < bexp m"
  shows "2 ^ (bexp m + 52) \<le> m / min_sub"
proof -
  from assms have "\<not> bitlength \<lfloor>m / min_sub\<rfloor> \<le> bexp m + 52" by (simp add: bexp_def)
  then have "\<not> m / min_sub < 2 ^ (bexp m + 52)" by (simp only: bitlength_floor_le_iff simp_thms)
  then show ?thesis by simp
qed

lemma bexp_eq0:
  assumes "m / min_sub < 2 ^ 53"
  shows "bexp m = 0"
proof -
  from assms have "bitlength \<lfloor>m / min_sub\<rfloor> \<le> 53" by (simp only: bitlength_floor_le_iff simp_thms)
  then show ?thesis by (simp add: bexp_def)
qed

lemma bexp_eqI:
  assumes "2 ^ (k + 52) \<le> m / min_sub" and "m / min_sub < 2 ^ (k + 53)"
  shows "bexp m = k"
proof -
  from assms(2) have u: "bitlength \<lfloor>m / min_sub\<rfloor> \<le> k + 53"
    by (simp only: bitlength_floor_le_iff simp_thms)
  from assms(1) have "\<not> m / min_sub < 2 ^ (k + 52)" by simp
  then have "\<not> bitlength \<lfloor>m / min_sub\<rfloor> \<le> k + 52"
    by (simp only: bitlength_floor_le_iff simp_thms)
  with u have "bitlength \<lfloor>m / min_sub\<rfloor> = k + 53" by simp
  then show ?thesis by (simp add: bexp_def)
qed

lemma rhe_bounds: "\<lfloor>x\<rfloor> \<le> rhe x \<and> rhe x \<le> \<lfloor>x\<rfloor> + 1"
  by (simp add: rhe_def Let_def)

lemma rhe_of_int [simp]: "rhe (of_int n) = n"
  by (simp add: rhe_def)

lemma rhe_mono:
  assumes "x \<le> y"
  shows "rhe x \<le> rhe y"
proof (cases "\<lfloor>x\<rfloor> < \<lfloor>y\<rfloor>")
  case True
  then show ?thesis using rhe_bounds [of x] rhe_bounds [of y] by linarith
next
  case False
  with assms have f: "\<lfloor>y\<rfloor> = \<lfloor>x\<rfloor>" using floor_mono [of x y] by simp
  from assms have "x - of_int \<lfloor>x\<rfloor> \<le> y - of_int \<lfloor>x\<rfloor>" by simp
  then show ?thesis
    unfolding rhe_def Let_def f by auto
qed

lemma rhe_ge: "of_int n \<le> x \<Longrightarrow> n \<le> rhe x"
  using rhe_mono [of "of_int n" x] by simp

lemma rhe_le: "x \<le> of_int n \<Longrightarrow> rhe x \<le> n"
  using rhe_mono [of x "of_int n"] by simp

lemma rhe_error: "\<bar>of_int (rhe x) - x\<bar> \<le> 1 / 2"
  unfolding rhe_def Let_def by (auto simp: abs_if) linarith+

lemma ulp_pos: "0 < ulp m"
  by (simp add: ulp_def min_sub_pos)

lemma quot_ulp: "m / ulp m = m / min_sub / 2 ^ bexp m"
  by (simp add: ulp_def field_simps)

lemma quot_upper: "m / ulp m < 2 ^ 53"
proof -
  have "m / min_sub < 2 ^ 53 * 2 ^ bexp m"
    using bexp_upper [of m] by (simp add: power_add mult.commute)
  moreover have "(0::real) < 2 ^ bexp m" by simp
  ultimately have "m / min_sub / 2 ^ bexp m < 2 ^ 53"
    by (simp only: pos_divide_less_eq)
  then show ?thesis by (simp only: quot_ulp)
qed

lemma quot_lower:
  assumes "0 < bexp m"
  shows "2 ^ 52 \<le> m / ulp m"
proof -
  have "2 ^ 52 * 2 ^ bexp m \<le> m / min_sub"
    using bexp_lower [OF assms] by (simp add: power_add mult.commute)
  moreover have "(0::real) < 2 ^ bexp m" by simp
  ultimately have "2 ^ 52 \<le> m / min_sub / 2 ^ bexp m"
    by (simp only: pos_le_divide_eq)
  then show ?thesis by (simp only: quot_ulp)
qed

lemma rmag_upper: "rmag m \<le> 2 ^ 53 * ulp m"
proof -
  have "m / ulp m \<le> of_int (2 ^ 53)" using quot_upper [of m] by simp
  then have "rhe (m / ulp m) \<le> 2 ^ 53" by (rule rhe_le)
  then have "(of_int (rhe (m / ulp m)) :: real) \<le> of_int (2 ^ 53)" by (simp only: of_int_le_iff)
  then have "(of_int (rhe (m / ulp m)) :: real) \<le> 2 ^ 53" by simp
  then show ?thesis
    unfolding rmag_def using ulp_pos [of m] by (simp add: mult_right_mono)
qed

lemma rmag_lower:
  assumes "0 < bexp m"
  shows "2 ^ 52 * ulp m \<le> rmag m"
proof -
  have "of_int (2 ^ 52) \<le> m / ulp m" using quot_lower [OF assms] by simp
  then have "2 ^ 52 \<le> rhe (m / ulp m)" by (rule rhe_ge)
  then have "(of_int (2 ^ 52) :: real) \<le> of_int (rhe (m / ulp m))" by (simp only: of_int_le_iff)
  then have "(2 ^ 52 :: real) \<le> of_int (rhe (m / ulp m))" by simp
  then show ?thesis
    unfolding rmag_def using ulp_pos [of m] by (simp add: mult_right_mono)
qed

lemma rmag_nonneg:
  assumes "0 \<le> m"
  shows "0 \<le> rmag m"
proof -
  have "of_int 0 \<le> m / ulp m" using assms ulp_pos [of m] by simp
  then have "0 \<le> rhe (m / ulp m)" by (rule rhe_ge)
  then show ?thesis
    unfolding rmag_def using ulp_pos [of m] by simp
qed

lemma rmag_mono:
  assumes "m1 \<le> m2"
  shows "rmag m1 \<le> rmag m2"
proof (cases "bexp m1 = bexp m2")
  case True
  then have u: "ulp m1 = ulp m2" by (simp add: ulp_def)
  have "m1 / ulp m2 \<le> m2 / ulp m2"
    using assms ulp_pos [of m2] by (simp add: divide_right_mono)
  then have "rhe (m1 / ulp m2) \<le> rhe (m2 / ulp m2)" by (rule rhe_mono)
  then have "(of_int (rhe (m1 / ulp m2)) :: real) \<le> of_int (rhe (m2 / ulp m2))" by simp
  then show ?thesis
    unfolding rmag_def u using ulp_pos [of m2] by (simp add: mult_right_mono)
next
  case False
  with bexp_mono [OF assms] have lt: "bexp m1 < bexp m2" by simp
  then have "Suc (bexp m1) \<le> bexp m2" by simp
  then have "(2::real) ^ Suc (bexp m1) \<le> 2 ^ bexp m2" by (rule power_increasing) simp
  then have "2 ^ Suc (bexp m1) * min_sub \<le> 2 ^ bexp m2 * min_sub"
    using min_sub_pos by (simp only: mult_le_cancel_right_pos)
  then have d: "2 * ulp m1 \<le> ulp m2" by (simp add: ulp_def)
  have "rmag m1 \<le> 2 ^ 53 * ulp m1" by (rule rmag_upper)
  also have "\<dots> = 2 ^ 52 * (2 * ulp m1)" by simp
  also have "\<dots> \<le> 2 ^ 52 * ulp m2" using d by (simp only: mult_le_cancel_left_pos zero_less_power zero_less_numeral)
  also have "\<dots> \<le> rmag m2" using lt by (intro rmag_lower) simp
  finally show ?thesis .
qed

lemma ulp_sub:
  assumes "m * 2 ^ 1074 < 2 ^ 53"
  shows "ulp m = 1 / 2 ^ 1074"
proof -
  have "m / min_sub < 2 ^ 53" using assms by (simp add: min_sub_def del: power_numeral)
  then have "bexp m = 0" by (rule bexp_eq0)
  then show ?thesis by (simp add: ulp_def min_sub_def del: power_numeral)
qed

lemma ulp_frac:
  assumes "n < 1074" and "2 ^ 52 \<le> m * 2 ^ n" and "m * 2 ^ n < 2 ^ 53"
  shows "ulp m = 1 / 2 ^ n"
proof -
  define k where "k = 1074 - n"
  have nk: "n + k = 1074" using assms(1) by (simp add: k_def)
  have "(2::real) ^ (n + k) = 2 ^ n * 2 ^ k" by (rule power_add)
  then have s: "(2::real) ^ 1074 = 2 ^ n * 2 ^ k" by (simp only: nk)
  have q: "m / min_sub = m * 2 ^ n * 2 ^ k" by (simp add: min_sub_def s del: power_numeral)
  have "2 ^ 52 * 2 ^ k \<le> m * 2 ^ n * (2 ^ k :: real)"
    using assms(2) by (simp only: mult_le_cancel_right_pos zero_less_power zero_less_numeral)
  then have a: "2 ^ (k + 52) \<le> m / min_sub" by (simp add: q power_add mult.commute)
  have "m * 2 ^ n * (2 ^ k :: real) < 2 ^ 53 * 2 ^ k"
    using assms(3) by (simp only: mult_less_cancel_right_pos zero_less_power zero_less_numeral)
  then have b: "m / min_sub < 2 ^ (k + 53)" by (simp add: q power_add mult.commute)
  from a b have "bexp m = k" by (rule bexp_eqI)
  then show ?thesis by (simp add: ulp_def min_sub_def s del: power_numeral)
qed

lemma ulp_int:
  assumes "2 ^ 52 \<le> m / 2 ^ n" and "m / 2 ^ n < 2 ^ 53"
  shows "ulp m = 2 ^ n"
proof -
  define k where "k = 1074 + n"
  have q: "m / min_sub = m / 2 ^ n * 2 ^ k" by (simp add: min_sub_def k_def power_add del: power_numeral)
  have "2 ^ 52 * 2 ^ k \<le> m / 2 ^ n * (2 ^ k :: real)"
    using assms(1) by (simp only: mult_le_cancel_right_pos zero_less_power zero_less_numeral)
  then have a: "2 ^ (k + 52) \<le> m / min_sub" by (simp add: q power_add mult.commute)
  have "m / 2 ^ n * (2 ^ k :: real) < 2 ^ 53 * 2 ^ k"
    using assms(2) by (simp only: mult_less_cancel_right_pos zero_less_power zero_less_numeral)
  then have b: "m / min_sub < 2 ^ (k + 53)" by (simp add: q power_add mult.commute)
  from a b have "bexp m = k" by (rule bexp_eqI)
  then show ?thesis by (simp add: ulp_def min_sub_def k_def power_add del: power_numeral)
qed

lemma rmag_sub:
  assumes "m * 2 ^ 1074 < 2 ^ 53"
  shows "rmag m = of_int (rhe (m * 2 ^ 1074)) / 2 ^ 1074"
  by (simp add: rmag_def ulp_sub [OF assms])

lemma rmag_frac:
  assumes "n < 1074" and "2 ^ 52 \<le> m * 2 ^ n" and "m * 2 ^ n < 2 ^ 53"
  shows "rmag m = of_int (rhe (m * 2 ^ n)) / 2 ^ n"
  by (simp add: rmag_def ulp_frac [OF assms])

lemma rmag_int:
  assumes "2 ^ 52 \<le> m / 2 ^ n" and "m / 2 ^ n < 2 ^ 53"
  shows "rmag m = of_int (rhe (m / 2 ^ n)) * 2 ^ n"
  by (simp add: rmag_def ulp_int [OF assms])

lemma rhe_0 [simp]: "rhe 0 = 0"
  using rhe_of_int [of 0] by simp

lemma rhe_1 [simp]: "rhe 1 = 1"
  using rhe_of_int [of 1] by simp

lemma rhe_numeral [simp]: "rhe (numeral n) = numeral n"
  using rhe_of_int [of "numeral n"] by simp

lemma rmag_0: "rmag 0 = 0"
  by (simp add: rmag_def)

lemma rmag_1: "rmag 1 = 1"
  using rmag_frac [of 52 1] by simp

lemma rmag_idem: "rmag (rmag m) = rmag m"
proof -
  define k where "k = bexp m"
  define n where "n = rhe (m / ulp m)"
  define R where "R = rmag m"
  have u: "ulp m = 2 ^ k * min_sub" by (simp add: ulp_def k_def)
  have r: "R = of_int n * (2 ^ k * min_sub)" by (simp add: R_def rmag_def n_def u)
  have q: "R / min_sub = of_int n * 2 ^ k"
    using min_sub_pos by (simp add: r)
  have n_le: "n \<le> 2 ^ 53"
  proof -
    have "m / ulp m \<le> of_int (2 ^ 53)" using quot_upper [of m] by simp
    then show ?thesis unfolding n_def by (rule rhe_le)
  qed
  have n_ge: "2 ^ 52 \<le> n" if "0 < k"
  proof -
    have "of_int (2 ^ 52) \<le> m / ulp m" using quot_lower [of m] that by (simp add: k_def)
    then show ?thesis unfolding n_def by (rule rhe_ge)
  qed
  have "rmag R = R"
  proof (cases "n = 2 ^ 53")
    case True
    have "R / min_sub = 2 ^ 53 * 2 ^ k" by (simp add: q True)
    then have qq: "R / min_sub = 2 ^ (Suc k + 52)"
      by (simp add: power_add)
    have "bexp R = Suc k"
    proof (rule bexp_eqI)
      show "2 ^ (Suc k + 52) \<le> R / min_sub" by (simp only: qq order_refl)
      have "(2::real) ^ (Suc k + 52) < 2 ^ (Suc k + 53)"
        by (rule power_strict_increasing) simp_all
      then show "R / min_sub < 2 ^ (Suc k + 53)" by (simp only: qq)
    qed
    then have u': "ulp R = 2 * (2 ^ k * min_sub)" by (simp add: ulp_def)
    have "R / ulp R = R / (2 * (2 ^ k * min_sub))" by (simp only: u')
    also have "\<dots> = of_int (2 ^ 52)" using min_sub_pos by (simp add: r True)
    finally have "rhe (R / ulp R) = 2 ^ 52" by (simp only: rhe_of_int)
    then have "rmag R = of_int (2 ^ 52) * (2 * (2 ^ k * min_sub))"
      by (simp only: rmag_def u')
    also have "\<dots> = R" by (simp add: r True)
    finally show ?thesis .
  next
    case False
    with n_le have lt: "n < 2 ^ 53" by simp
    have nr: "of_int n < (2 ^ 53 :: real)" using lt
      by (metis of_int_less_iff of_int_numeral of_int_power)
    have "bexp R = k"
    proof (cases "0 < k")
      case True
      have a: "(2::real) ^ (k + 52) \<le> of_int n * 2 ^ k"
      proof -
        have "(2 ^ 52 :: real) \<le> of_int n" using n_ge [OF True]
          by (metis of_int_le_iff of_int_numeral of_int_power)
        then have "(2 ^ 52 :: real) * 2 ^ k \<le> of_int n * 2 ^ k"
          by (simp only: mult_le_cancel_right_pos zero_less_power zero_less_numeral)
        then show ?thesis by (simp only: power_add mult.commute)
      qed
      have b: "of_int n * 2 ^ k < (2::real) ^ (k + 53)"
      proof -
        from nr have "of_int n * 2 ^ k < (2 ^ 53 :: real) * 2 ^ k"
          by (simp only: mult_less_cancel_right_pos zero_less_power zero_less_numeral)
        then show ?thesis by (simp only: power_add mult.commute)
      qed
      from a b show ?thesis unfolding q [symmetric] by (rule bexp_eqI)
    next
      case False
      then have k0: "k = 0" by simp
      from nr have "R / min_sub < 2 ^ 53" by (simp only: q k0 power_0 mult_1_right)
      then show ?thesis unfolding k0 by (rule bexp_eq0)
    qed
    then have u': "ulp R = 2 ^ k * min_sub" by (simp add: ulp_def)
    have "R / ulp R = R / (2 ^ k * min_sub)" by (simp only: u')
    also have "\<dots> = of_int n" using min_sub_pos by (simp add: r)
    finally have "rhe (R / ulp R) = n" by (simp only: rhe_of_int)
    then have "rmag R = of_int n * (2 ^ k * min_sub)"
      by (simp only: rmag_def u')
    also have "\<dots> = R" by (simp only: r)
    finally show ?thesis .
  qed
  then show ?thesis by (simp only: R_def)
qed

section \<open>The binary64 operators on non-negative values\<close>

lemma round64_False_nn: "0 \<le> m \<Longrightarrow> nn (round64 False m)"
  by (simp add: round64_def rmag_nonneg)

lemma round64_zero: "round64 s 0 = Fin s 0"
  by (simp add: round64_def rmag_0)

lemma round64_nn: "0 \<le> m \<Longrightarrow> (s \<longrightarrow> m = 0) \<Longrightarrow> nn (round64 s m)"
  by (cases s) (auto simp: round64_zero round64_False_nn)

lemma le64_round64:
  assumes "0 \<le> m1" and "m1 \<le> m2" and "s1 \<longrightarrow> m1 = 0" and "s2 \<longrightarrow> m2 = 0"
  shows "le64 (round64 s1 m1) (round64 s2 m2)"
proof -
  have r: "rmag m1 \<le> rmag m2" using assms(2) by (rule rmag_mono)
  have n: "0 \<le> rmag m1" using assms(1) by (rule rmag_nonneg)
  show ?thesis
    using r n assms(3,4) by (auto simp: round64_def le64_def rmag_0)
qed

lemma mul64_nn:
  assumes "nn x" and "nn y" and "\<not> (isInf x \<and> isZero y)" and "\<not> (isZero x \<and> isInf y)"
  shows "nn (mul64 x y)"
  using assms
  by (cases x; cases y) (auto simp: mul64_def intro!: round64_nn)





lemma add64_nn_eq:
  assumes "nn x" and "nn y"
  shows "add64 x y =
    (if isInf x \<or> isInf y then Inf False
     else if mag x + mag y = 0 then Fin (sign x \<and> sign y) 0
     else round64 False (mag x + mag y))"
  using assms by (cases x; cases y) (auto simp: add64_def)

lemma add64_nn:
  assumes "nn x" and "nn y"
  shows "nn (add64 x y)"
  using assms by (cases x; cases y) (auto simp: add64_nn_eq intro!: round64_False_nn)

lemma add64_mono_right:
  assumes "nn x" and "nn y" and "nn z" and "le64 x y"
  shows "le64 (add64 z x) (add64 z y)"
proof -
  have nz: "nn (add64 z x)" "nn (add64 z y)" using assms by (simp_all add: add64_nn)
  show ?thesis
  proof (cases "isInf z \<or> isInf y")
    case True
    then have "add64 z y = Inf False" using assms by (simp add: add64_nn_eq)
    with nz(1) show ?thesis by (cases "add64 z x") (auto simp: le64_def)
  next
    case False
    with assms obtain sz c sx a sy b where
      e: "z = Fin sz c" "x = Fin sx a" "y = Fin sy b"
      by (cases z; cases x; cases y) (auto simp: le64_def)
    with assms have f: "0 \<le> c" "0 \<le> a" "a \<le> b" "sx \<longrightarrow> a = 0" "sy \<longrightarrow> b = 0" "sz \<longrightarrow> c = 0"
      by (auto simp: le64_def split: if_splits)
    have nx: "nn z" "nn x" "nn y" using assms by simp_all
    have zx: "add64 z x = (if c + a = 0 then Fin (sz \<and> sx) 0 else round64 False (c + a))"
      using add64_nn_eq [OF nx(1) nx(2)] by (simp add: e)
    have zy: "add64 z y = (if c + b = 0 then Fin (sz \<and> sy) 0 else round64 False (c + b))"
      using add64_nn_eq [OF nx(1) nx(3)] by (simp add: e)
    show ?thesis
    proof (cases "c + b = 0")
      case True
      with f have "c + a = 0" by simp
      with True show ?thesis by (simp add: zx zy le64_def)
    next
      case nb: False
      show ?thesis
      proof (cases "c + a = 0")
        case True
        have "le64 (round64 (sz \<and> sx) 0) (round64 False (c + b))"
          using f by (intro le64_round64) auto
        with True nb show ?thesis by (simp add: zx zy round64_zero)
      next
        case False
        have "le64 (round64 False (c + a)) (round64 False (c + b))"
          using f by (intro le64_round64) auto
        with False nb show ?thesis by (simp add: zx zy)
      qed
    qed
  qed
qed

section \<open>Binary64 constants and case analysis\<close>

lemma rmag_2: "rmag 2 = 2"
  using rmag_frac [of 51 2] by simp

lemma rmag_50: "rmag 50 = 50"
  using rmag_frac [of 47 50] by simp

lemma rmag_100: "rmag 100 = 100"
  using rmag_frac [of 46 100] by simp

lemma rmag_threshold: "rmag (17 / 20) = threshold64"
  using rmag_frac [of 53 "17 / 20"] by (simp add: rhe_def threshold64_def)

lemma rmag_threshold64: "rmag threshold64 = threshold64"
  using rmag_idem [of "17 / 20"] by (simp only: rmag_threshold)

lemma threshold64_bounds: "0 < threshold64" "threshold64 < 1"
  by (simp_all add: threshold64_def)

lemma rmag_rate: "rmag (1 / 10000) = rate64"
  using rmag_frac [of 66 "1 / 10000"] by (simp add: rhe_def rate64_def)

lemma rmag_rate64: "rmag rate64 = rate64"
  using rmag_idem [of "1 / 10000"] by (simp only: rmag_rate)

lemma rate64_bounds: "0 < rate64" "rate64 < 1"
  by (simp_all add: rate64_def)

lemma lit_0: "lit 0 = Fin False 0"
  by (simp add: lit_def round64_zero)

lemma lit_1: "lit 1 = Fin False 1"
  by (simp add: lit_def round64_def rmag_1)

lemma lit_50: "lit 50 = Fin False 50"
  by (simp add: lit_def round64_def rmag_50)

lemma lit_100: "lit 100 = Fin False 100"
  by (simp add: lit_def round64_def rmag_100)

lemma lit_threshold: "lit liquidationThreshold = Fin False threshold64"
  using threshold64_bounds
  by (simp add: lit_def liquidationThreshold_def round64_def rmag_threshold)

lemma lit_rate: "lit (1 / 10000) = Fin False rate64"
  using rate64_bounds
  by (simp add: lit_def round64_def rmag_rate)

lemma round64_Fin: "rmag m < 2 ^ 1024 \<Longrightarrow> round64 s m = Fin s (rmag m)"
  by (simp add: round64_def)

lemma round64_Fin_le:
  assumes "m \<le> b" and "rmag b = b" and "b < 2 ^ 1024"
  shows "round64 s m = Fin s (rmag m)" and "rmag m \<le> b"
proof -
  have "rmag m \<le> rmag b" using assms(1) by (rule rmag_mono)
  with assms(2) show le: "rmag m \<le> b" by simp
  from le assms(3) have "rmag m < 2 ^ 1024" by (rule le_less_trans)
  then show "round64 s m = Fin s (rmag m)" by (rule round64_Fin)
qed

lemma positive_cases:
  assumes "is_double x" and "lt64 (Fin False 0) x"
  shows "x = Inf False \<or> (\<exists>m. x = Fin False m \<and> 0 < m \<and> rmag m = m \<and> m < 2 ^ 1024)"
  using assms by (cases x) (auto simp: lt64_def split: if_splits)

lemma range_cases:
  assumes "is_double x" and "le64 (Fin False a) x" and "le64 x (Fin False b)" and "0 < a"
  shows "\<exists>m. x = Fin False m \<and> a \<le> m \<and> m \<le> b \<and> rmag m = m"
  using assms by (cases x) (auto simp: le64_def split: if_splits)

lemma at_least_cases:
  assumes "is_double x" and "le64 (Fin False a) x" and "0 < a"
  shows "x = Inf False \<or> (\<exists>m. x = Fin False m \<and> a \<le> m \<and> rmag m = m \<and> m < 2 ^ 1024)"
  using assms by (cases x) (auto simp: le64_def split: if_splits)

section \<open>The liquidation calculator on binary64 values\<close>

lemma margin_part_bounds:
  assumes "1 \<le> ml"
  shows "0 \<le> margin_part ml" and "margin_part ml \<le> threshold64"
proof -
  have a0: "0 \<le> rmag (1 / ml)" using assms by (intro rmag_nonneg) simp
  have "rmag (1 / ml) \<le> rmag 1" using assms by (intro rmag_mono) simp
  then have a1: "rmag (1 / ml) \<le> 1" by (simp add: rmag_1)
  show "0 \<le> margin_part ml"
    unfolding margin_part_def using a0 threshold64_bounds by (intro rmag_nonneg) simp
  have "rmag (1 / ml) * threshold64 \<le> 1 * threshold64"
    using a1 threshold64_bounds by (intro mult_right_mono) simp_all
  then have "rmag (1 / ml) * threshold64 \<le> threshold64" by simp
  then have "margin_part ml \<le> rmag threshold64"
    unfolding margin_part_def by (rule rmag_mono)
  then show "margin_part ml \<le> threshold64"
    by (simp only: rmag_threshold64)
qed

lemma margin_part_antimono:
  assumes "1 \<le> m1" and "m1 \<le> m2"
  shows "margin_part m2 \<le> margin_part m1"
proof -
  have "1 / m2 \<le> 1 / m1" using assms by (simp add: frac_le)
  then have "rmag (1 / m2) \<le> rmag (1 / m1)" by (rule rmag_mono)
  then have "rmag (1 / m2) * threshold64 \<le> rmag (1 / m1) * threshold64"
    using threshold64_bounds by (intro mult_right_mono) simp_all
  then show ?thesis unfolding margin_part_def by (rule rmag_mono)
qed

lemma margin_product:
  assumes "1 \<le> ml"
  shows "mul64 (div64 (lit 1) (Fin False ml)) (lit liquidationThreshold) = Fin False (margin_part ml)"
proof -
  have "1 / ml \<le> 1" using assms by simp
  then have d: "round64 False (1 / ml) = Fin False (rmag (1 / ml))" and a1: "rmag (1 / ml) \<le> 1"
    by (rule round64_Fin_le; simp add: rmag_1)+
  have q: "div64 (lit 1) (Fin False ml) = Fin False (rmag (1 / ml))"
    using assms by (simp add: div64_def lit_1 d)
  have "rmag (1 / ml) * threshold64 \<le> 1 * threshold64"
    using a1 threshold64_bounds by (intro mult_right_mono) simp_all
  then have "rmag (1 / ml) * threshold64 \<le> threshold64" by simp
  then have "round64 False (rmag (1 / ml) * threshold64) = Fin False (margin_part ml)"
    unfolding margin_part_def using threshold64_bounds
    by (intro round64_Fin_le(1) [where b = threshold64]) (simp_all add: rmag_threshold64)
  then show ?thesis by (simp add: q lit_threshold mul64_def)
qed

lemma rmag_one_minus_threshold: "0 < rmag (1 - threshold64)"
  using rmag_frac [of 55 "1 - threshold64"] by (simp add: threshold64_def)

lemma long_factor_bounds:
  assumes "1 \<le> ml"
  shows "0 < long_factor ml" and "long_factor ml \<le> 1"
proof -
  have "1 - threshold64 \<le> 1 - margin_part ml"
    using margin_part_bounds(2) [OF assms] by simp
  then have "rmag (1 - threshold64) \<le> long_factor ml"
    unfolding long_factor_def by (rule rmag_mono)
  with rmag_one_minus_threshold show "0 < long_factor ml" by simp
  have "1 - margin_part ml \<le> 1" using margin_part_bounds(1) [OF assms] by simp
  then have "long_factor ml \<le> rmag 1" unfolding long_factor_def by (rule rmag_mono)
  then show "long_factor ml \<le> 1" by (simp add: rmag_1)
qed

lemma long_factor_mono:
  assumes "1 \<le> m1" and "m1 \<le> m2"
  shows "long_factor m1 \<le> long_factor m2"
proof -
  have "1 - margin_part m1 \<le> 1 - margin_part m2"
    using margin_part_antimono [OF assms] by simp
  then show ?thesis unfolding long_factor_def by (rule rmag_mono)
qed

lemma short_factor_bounds:
  assumes "1 \<le> ml"
  shows "1 \<le> short_factor ml" and "short_factor ml \<le> 2"
proof -
  have "1 \<le> 1 + margin_part ml" using margin_part_bounds(1) [OF assms] by simp
  then have "rmag 1 \<le> short_factor ml" unfolding short_factor_def by (rule rmag_mono)
  then show "1 \<le> short_factor ml" by (simp add: rmag_1)
  have "1 + margin_part ml \<le> 2"
    using margin_part_bounds(2) [OF assms] threshold64_bounds by simp
  then have "short_factor ml \<le> rmag 2" unfolding short_factor_def by (rule rmag_mono)
  then show "short_factor ml \<le> 2" by (simp add: rmag_2)
qed

lemma short_factor_antimono:
  assumes "1 \<le> m1" and "m1 \<le> m2"
  shows "short_factor m2 \<le> short_factor m1"
proof -
  have "1 + margin_part m2 \<le> 1 + margin_part m1"
    using margin_part_antimono [OF assms] by simp
  then show ?thesis unfolding short_factor_def by (rule rmag_mono)
qed

lemma long_factor_eval:
  assumes "1 \<le> ml"
  shows "sub64 (lit 1) (Fin False (margin_part ml)) = Fin False (long_factor ml)"
proof -
  have t: "margin_part ml < 1"
    using margin_part_bounds(2) [OF assms] threshold64_bounds by simp
  have "1 - margin_part ml \<le> 1" using margin_part_bounds(1) [OF assms] by simp
  then have "round64 False (1 - margin_part ml) = Fin False (long_factor ml)"
    unfolding long_factor_def by (intro round64_Fin_le(1) [where b = 1]) (simp_all add: rmag_1)
  with t show ?thesis by (simp add: sub64_def add64_def lit_1)
qed

lemma short_factor_eval:
  assumes "1 \<le> ml"
  shows "add64 (lit 1) (Fin False (margin_part ml)) = Fin False (short_factor ml)"
proof -
  have t: "0 \<le> margin_part ml" by (rule margin_part_bounds(1) [OF assms])
  have "1 + margin_part ml \<le> 2"
    using margin_part_bounds(2) [OF assms] threshold64_bounds by simp
  then have "round64 False (1 + margin_part ml) = Fin False (short_factor ml)"
    unfolding short_factor_def by (intro round64_Fin_le(1) [where b = 2]) (simp_all add: rmag_2)
  with t show ?thesis by (simp add: add64_def lit_1)
qed

lemma calculateLiquidationPrice64_found:
  assumes "findAsset (asset p) = Some a" and "leverage p = Fin False ml" and "1 \<le> ml"
  shows "\<exists>r. calculateLiquidationPrice64 p = Inr r
    \<and> liquidationPrice r =
        mul64 (entryPrice p) (Fin False (if isLong p then long_factor ml else short_factor ml))
    \<and> distancePercentage r =
        mul64 (div64 (abs64 (sub64 (entryPrice p) (liquidationPrice r))) (entryPrice p)) (Fin False 100)"
  using assms
  by (simp add: calculateLiquidationPrice64_def Let_def margin_product long_factor_eval
      short_factor_eval lit_100)





lemma nn_le_mag:
  assumes "nn x" and "nn y" and "le64 x y" and "\<not> isInf y"
  shows "\<not> isInf x \<and> mag x \<le> mag y"
  using assms by (cases x; cases y) (auto simp: le64_def split: if_splits)





lemma liquidation_long_le:
  assumes "1 \<le> ml" and "x = Inf False \<or> (\<exists>m. x = Fin False m \<and> 0 < m \<and> rmag m = m \<and> m < 2 ^ 1024)"
  shows "le64 (mul64 x (Fin False (long_factor ml))) x"
proof -
  note f = long_factor_bounds [OF assms(1)]
  from assms(2) show ?thesis
  proof
    assume "x = Inf False"
    with f show ?thesis by (simp add: mul64_def le64_def)
  next
    assume "\<exists>m. x = Fin False m \<and> 0 < m \<and> rmag m = m \<and> m < 2 ^ 1024"
    then obtain m where m: "x = Fin False m" "0 < m" "rmag m = m" "m < 2 ^ 1024" by blast
    have "m * long_factor ml \<le> m * 1" using m(2) f(2) by (intro mult_left_mono) simp_all
    then have le: "m * long_factor ml \<le> m" by simp
    have "round64 False (m * long_factor ml) = Fin False (rmag (m * long_factor ml))"
      and "rmag (m * long_factor ml) \<le> m"
      using le m(3,4) by (rule round64_Fin_le)+
    with m(1) show ?thesis by (simp add: mul64_def le64_def)
  qed
qed

lemma liquidation_short_ge:
  assumes "1 \<le> ml" and "x = Inf False \<or> (\<exists>m. x = Fin False m \<and> 0 < m \<and> rmag m = m \<and> m < 2 ^ 1024)"
  shows "le64 x (mul64 x (Fin False (short_factor ml)))"
proof -
  note f = short_factor_bounds [OF assms(1)]
  from assms(2) show ?thesis
  proof
    assume "x = Inf False"
    with f show ?thesis by (simp add: mul64_def le64_def)
  next
    assume "\<exists>m. x = Fin False m \<and> 0 < m \<and> rmag m = m \<and> m < 2 ^ 1024"
    then obtain m where m: "x = Fin False m" "0 < m" "rmag m = m" "m < 2 ^ 1024" by blast
    have "m * 1 \<le> m * short_factor ml" using m(2) f(1) by (intro mult_left_mono) simp_all
    then have "rmag m \<le> rmag (m * short_factor ml)" by (intro rmag_mono) simp
    with m(3) have "m \<le> rmag (m * short_factor ml)" by simp
    with m(1) show ?thesis by (simp add: mul64_def le64_def round64_def)
  qed
qed

subsection \<open>Strictness away from the subnormal numbers\<close>

lemma rmag_error: "\<bar>rmag m - m\<bar> \<le> ulp m / 2"
proof -
  have u: "0 < ulp m" by (rule ulp_pos)
  have "rmag m - m = (of_int (rhe (m / ulp m)) - m / ulp m) * ulp m"
    using u by (simp add: rmag_def field_simps)
  then have "\<bar>rmag m - m\<bar> = \<bar>of_int (rhe (m / ulp m)) - m / ulp m\<bar> * ulp m"
    using u by (simp add: abs_mult)
  also have "\<dots> \<le> 1 / 2 * ulp m"
    using rhe_error [of "m / ulp m"] u by (intro mult_right_mono) simp_all
  finally show ?thesis by simp
qed

lemma ulp_mono: "m1 \<le> m2 \<Longrightarrow> ulp m1 \<le> ulp m2"
proof -
  assume "m1 \<le> m2"
  then have "bexp m1 \<le> bexp m2" by (rule bexp_mono)
  then have "(2::real) ^ bexp m1 \<le> 2 ^ bexp m2" by (rule power_increasing) simp
  then show ?thesis
    unfolding ulp_def using min_sub_pos by (intro mult_right_mono) simp_all
qed

lemma ulp_normal:
  assumes "min_normal \<le> m"
  shows "ulp m \<le> m / 2 ^ 52"
proof (cases "bexp m = 0")
  case True
  then have "ulp m = min_sub" by (simp add: ulp_def)
  moreover have "2 ^ 52 * min_sub \<le> m" using assms by (simp only: min_normal_def)
  ultimately show ?thesis by (simp add: pos_le_divide_eq mult.commute)
next
  case False
  then have "2 ^ (bexp m + 52) \<le> m / min_sub" by (intro bexp_lower) simp
  then have "2 ^ (bexp m + 52) * min_sub \<le> m"
    using min_sub_pos by (simp only: pos_le_divide_eq)
  then have "2 ^ bexp m * min_sub * 2 ^ 52 \<le> m"
    by (simp only: power_add mult.assoc mult.commute mult.left_commute)
  then have "ulp m * 2 ^ 52 \<le> m" by (simp only: ulp_def)
  then show ?thesis by (simp add: pos_le_divide_eq)
qed

lemma min_normal_pos: "0 < min_normal"
  by (simp add: min_normal_def min_sub_pos)

lemma margin_part_50: "margin_part 50 = 1224979098644775 / 72057594037927936"
proof -
  have a: "rmag (1 / 50) = 5764607523034235 / 288230376151711744"
    using rmag_frac [of 58 "1 / 50"] by (simp add: rhe_def)
  have b: "rmag (5764607523034235 / 288230376151711744 * threshold64)
      = 1224979098644775 / 72057594037927936"
    using rmag_frac [of 58 "5764607523034235 / 288230376151711744 * threshold64"]
    by (simp add: threshold64_def rhe_def)
  show ?thesis by (simp only: margin_part_def a b)
qed

lemma long_factor_50: "long_factor 50 = 8854076867410395 / 9007199254740992"
proof -
  have "rmag (1 - 1224979098644775 / 72057594037927936) = 8854076867410395 / 9007199254740992"
    using rmag_frac [of 53 "1 - 1224979098644775 / 72057594037927936"] by (simp add: rhe_def)
  then show ?thesis by (simp only: long_factor_def margin_part_50)
qed

lemma short_factor_50: "short_factor 50 = 2290080410517897 / 2251799813685248"
proof -
  have "rmag (1 + 1224979098644775 / 72057594037927936) = 2290080410517897 / 2251799813685248"
    using rmag_frac [of 52 "1 + 1224979098644775 / 72057594037927936"] by (simp add: rhe_def)
  then show ?thesis by (simp only: short_factor_def margin_part_50)
qed

lemma liquidation_long_strict:
  assumes "1 \<le> ml" and "ml \<le> 50" and "min_normal \<le> me"
  shows "rmag (me * long_factor ml) < me"
proof -
  have pos: "0 < me" using assms(3) min_normal_pos by simp
  have "long_factor ml \<le> long_factor 50" using assms(1,2) by (rule long_factor_mono)
  then have c: "long_factor ml \<le> 99 / 100" by (simp add: long_factor_50)
  have c0: "0 < long_factor ml" by (rule long_factor_bounds(1) [OF assms(1)])
  define x where "x = me * long_factor ml"
  have x: "x \<le> me * (99 / 100)"
    unfolding x_def using pos c by (intro mult_left_mono) simp_all
  then have xm: "x \<le> me" using pos by simp
  have "rmag x - x \<le> ulp x / 2" using rmag_error [of x] by linarith
  also have "\<dots> \<le> ulp me / 2" using ulp_mono [OF xm] by simp
  also have "\<dots> \<le> me / 2 ^ 52 / 2" using ulp_normal [OF assms(3)] by simp
  finally have "rmag x \<le> x + me / 2 ^ 52 / 2" by simp
  also have "\<dots> \<le> me * (99 / 100) + me / 2 ^ 52 / 2" using x by simp
  also have "\<dots> < me" using pos by simp
  finally show ?thesis by (simp only: x_def)
qed

lemma liquidation_short_strict:
  assumes "1 \<le> ml" and "ml \<le> 50" and "min_normal \<le> me"
  shows "me < rmag (me * short_factor ml)"
proof -
  have pos: "0 < me" using assms(3) min_normal_pos by simp
  have "short_factor 50 \<le> short_factor ml" using assms(1,2) by (rule short_factor_antimono)
  then have c: "101 / 100 \<le> short_factor ml" by (simp add: short_factor_50)
  define x where "x = me * short_factor ml"
  have x: "me * (101 / 100) \<le> x"
    unfolding x_def using pos c by (intro mult_left_mono) simp_all
  then have xm: "me \<le> x" using pos by simp
  with assms(3) have xn: "min_normal \<le> x" by simp
  have "x - rmag x \<le> ulp x / 2" using rmag_error [of x] by linarith
  also have "\<dots> \<le> x / 2 ^ 52 / 2" using ulp_normal [OF xn] by simp
  finally have "x - x / 2 ^ 52 / 2 \<le> rmag x" by simp
  moreover have "me < x - x / 2 ^ 52 / 2"
  proof -
    have "me < me * (101 / 100) * (1 - 1 / 2 ^ 53)" using pos by simp
    also have "\<dots> \<le> x * (1 - 1 / 2 ^ 53)" using x by (intro mult_right_mono) simp_all
    also have "\<dots> = x - x / 2 ^ 52 / 2" by (simp add: algebra_simps)
    finally show ?thesis .
  qed
  ultimately show ?thesis unfolding x_def by simp
qed

lemma liquidation_long_lt:
  assumes "1 \<le> ml" and "ml \<le> 50" and "min_normal \<le> me" and "rmag me = me" and "me < 2 ^ 1024"
  shows "lt64 (mul64 (Fin False me) (Fin False (long_factor ml))) (Fin False me)"
proof -
  have pos: "0 < me" using assms(3) min_normal_pos by simp
  have "me * long_factor ml \<le> me * 1"
    using pos long_factor_bounds(2) [OF assms(1)] by (intro mult_left_mono) simp_all
  then have "me * long_factor ml \<le> me" by simp
  then have "round64 False (me * long_factor ml) = Fin False (rmag (me * long_factor ml))"
    using assms(4,5) by (rule round64_Fin_le(1))
  with liquidation_long_strict [OF assms(1,2,3)] show ?thesis
    by (simp add: mul64_def lt64_def)
qed

lemma liquidation_short_gt:
  assumes "1 \<le> ml" and "ml \<le> 50" and "min_normal \<le> me"
  shows "lt64 (Fin False me) (mul64 (Fin False me) (Fin False (short_factor ml)))"
  using liquidation_short_strict [OF assms]
  by (simp add: mul64_def lt64_def round64_def)

subsection \<open>The liquidation price and the entry price\<close>

text \<open>
  Claim C5 says that the liquidation price of a valid position is strictly below the
  entry price for a long position and strictly above it for a short one. On binary64
  values the product \<^verbatim>\<open>entryPrice * (1 - marginRatio * 0.85)\<close> is rounded: for AVAX
  with collateral 1000, leverage 50 and the smallest positive entry price \<open>min_sub\<close>
  (5e-324, which passes every check of \<^verbatim>\<open>validatePosition\<close>) the long liquidation price
  is the entry price itself.
\<close>

theorem calculateLiquidationPrice64_strict_counterexample:
  "is_double (Fin False 1000) \<and> is_double (Fin False 50) \<and> is_double (Fin False min_sub)
   \<and> gt64 (Fin False 1000) (lit 0) \<and> gt64 (Fin False min_sub) (lit 0)
   \<and> le64 (lit 1) (Fin False 50) \<and> le64 (Fin False 50) (lit 50)
   \<and> calculateLiquidationPrice64
       \<lparr> asset = ''AVAX'', collateral = Fin False 1000, leverage = Fin False 50,
         isLong = True, entryPrice = Fin False min_sub \<rparr>
     = Inr \<lparr> liquidationPrice = Fin False min_sub,
            distanceToLiquidation = Fin False 0,
            distancePercentage = Fin False 0,
            marginRatio = Fin False 2 \<rparr>
   \<and> \<not> lt64 (Fin False min_sub) (Fin False min_sub)"
proof -
  have d1: "is_double (Fin False 1000)"
    by (simp add: rmag_frac [where n = 43])
  have d2: "is_double (Fin False 50)"
    by (simp add: rmag_frac [where n = 47])
  have d3: "is_double (Fin False min_sub)"
    by (simp add: rmag_sub min_sub_def)
  have s1: "div64 (Fin False 1) (Fin False 50) = Fin False (5764607523034235 / 288230376151711744)"
    by (simp add: div64_def rhe_def rmag_0 rmag_frac [where n = 58] round64_def)
  have s2: "mul64 (Fin False (5764607523034235 / 288230376151711744)) (Fin False (7656119366529843 / 9007199254740992)) = Fin False (1224979098644775 / 72057594037927936)"
    by (simp add: mul64_def rhe_def rmag_0 rmag_frac [where n = 58] round64_def)
  have s3: "sub64 (Fin False 1) (Fin False (1224979098644775 / 72057594037927936)) = Fin False (8854076867410395 / 9007199254740992)"
    by (simp add: add64_def rhe_def rmag_0 rmag_frac [where n = 53] round64_def sub64_def)
  have s4: "mul64 (Fin False min_sub) (Fin False (8854076867410395 / 9007199254740992)) = Fin False min_sub"
    by (simp add: min_sub_def mul64_def rhe_def rmag_0 rmag_sub round64_def)
  have s5: "sub64 (Fin False min_sub) (Fin False min_sub) = Fin False 0"
    by (simp add: add64_def min_sub_def rhe_def rmag_0 round64_def sub64_def)
  have s6: "div64 (Fin False 0) (Fin False min_sub) = Fin False 0"
    by (simp add: div64_def min_sub_def rhe_def rmag_0 round64_def)
  have s7: "mul64 (Fin False 0) (Fin False 100) = Fin False 0"
    by (simp add: mul64_def rhe_def rmag_0 round64_def)
  have s8: "mul64 (Fin False (5764607523034235 / 288230376151711744)) (Fin False 100) = Fin False 2"
    by (simp add: mul64_def rhe_def rmag_0 rmag_frac [where n = 51] round64_def)
  show ?thesis
    using min_sub_pos d1 d2 d3
    by (simp add: calculateLiquidationPrice64_def Let_def findAsset_AVAX lit_1 lit_100
        lit_threshold threshold64_def
        lit_0 lit_50 gt64_def lt64_def le64_def s1 s2 s3 s4 s5 s6 s7 s8)
qed

text \<open>
  Claim C5, amended. For every valid position (supported asset, collateral \<open>> 0\<close>,
  entry price \<open>> 0\<close>, leverage in \<open>[1, 50]\<close>, all binary64 values) the calculator
  returns a result whose \<^verbatim>\<open>liquidationPrice\<close> is not above the entry price for a long
  position and not below it for a short one; and when the entry price is finite and not
  below the smallest normal binary64 value, \<open>min_normal\<close>, the comparison is strict.
\<close>

theorem calculateLiquidationPrice64_side_of_entry:
  assumes "asset p \<in> symbol ` set SUPPORTED_ASSETS"
    and "is_double (collateral p)" and "is_double (leverage p)" and "is_double (entryPrice p)"
    and "gt64 (collateral p) (lit 0)" and "gt64 (entryPrice p) (lit 0)"
    and "le64 (lit 1) (leverage p)" and "le64 (leverage p) (lit 50)"
  shows "\<exists>r. calculateLiquidationPrice64 p = Inr r
     \<and> (isLong p \<longrightarrow> le64 (liquidationPrice r) (entryPrice p))
     \<and> (\<not> isLong p \<longrightarrow> le64 (entryPrice p) (liquidationPrice r))
     \<and> (isFinite (entryPrice p) \<and> le64 (Fin False min_normal) (entryPrice p) \<longrightarrow>
          (isLong p \<longrightarrow> lt64 (liquidationPrice r) (entryPrice p))
        \<and> (\<not> isLong p \<longrightarrow> lt64 (entryPrice p) (liquidationPrice r)))"
proof -
  from assms(1) obtain a where a: "findAsset (asset p) = Some a"
    using findAsset_supported by blast
  from range_cases [of "leverage p" 1 50] assms(3,7,8)
  obtain ml where ml: "leverage p = Fin False ml" "1 \<le> ml" "ml \<le> 50"
    by (auto simp: lit_1 lit_50)
  from positive_cases [of "entryPrice p"] assms(4,6)
  have e: "entryPrice p = Inf False
      \<or> (\<exists>m. entryPrice p = Fin False m \<and> 0 < m \<and> rmag m = m \<and> m < 2 ^ 1024)"
    by (simp add: gt64_def lit_0)
  from calculateLiquidationPrice64_found [OF a ml(1,2)]
  obtain r where r: "calculateLiquidationPrice64 p = Inr r"
    "liquidationPrice r =
        mul64 (entryPrice p) (Fin False (if isLong p then long_factor ml else short_factor ml))"
    by blast
  have weak: "(isLong p \<longrightarrow> le64 (liquidationPrice r) (entryPrice p))
      \<and> (\<not> isLong p \<longrightarrow> le64 (entryPrice p) (liquidationPrice r))"
    using r(2) liquidation_long_le [OF ml(2) e] liquidation_short_ge [OF ml(2) e] by simp
  have strict: "(isLong p \<longrightarrow> lt64 (liquidationPrice r) (entryPrice p))
      \<and> (\<not> isLong p \<longrightarrow> lt64 (entryPrice p) (liquidationPrice r))"
    if fin: "isFinite (entryPrice p)" and big: "le64 (Fin False min_normal) (entryPrice p)"
  proof -
    from e fin obtain m where m: "entryPrice p = Fin False m" "rmag m = m" "m < 2 ^ 1024"
      by auto
    from big m(1) have n: "min_normal \<le> m" by (simp add: le64_def)
    show ?thesis
      using r(2) liquidation_long_lt [OF ml(2,3) n m(2,3)] liquidation_short_gt [OF ml(2,3) n]
      by (simp add: m(1))
  qed
  from r(1) weak strict show ?thesis by blast
qed

text \<open>
  The amended claim at the position AVAX, collateral 1000, leverage 5, entry price 25.50,
  long and short; the binary64 liquidation prices are the values nearest to 21.165 and
  29.835, strictly below and strictly above the entry price.
\<close>

theorem calculateLiquidationPrice64_side_of_entry_witness:
  "(\<exists>r. calculateLiquidationPrice64
         \<lparr> asset = ''AVAX'', collateral = Fin False 1000, leverage = Fin False 5,
           isLong = True, entryPrice = Fin False (51 / 2) \<rparr> = Inr r
      \<and> liquidationPrice r = Fin False (2978708941040517 / 140737488355328)
      \<and> lt64 (liquidationPrice r) (Fin False (51 / 2)))
   \<and> (\<exists>r. calculateLiquidationPrice64
         \<lparr> asset = ''AVAX'', collateral = Fin False 1000, leverage = Fin False 5,
           isLong = False, entryPrice = Fin False (51 / 2) \<rparr> = Inr r
      \<and> liquidationPrice r = Fin False (8397805930162421 / 281474976710656)
      \<and> lt64 (Fin False (51 / 2)) (liquidationPrice r))"
proof -
  have d1: "is_double (Fin False 1000)"
    by (simp add: rmag_frac [where n = 43])
  have d2: "is_double (Fin False 5)"
    by (simp add: rmag_frac [where n = 50])
  have d3: "is_double (Fin False (51 / 2))"
    by (simp add: rmag_frac [where n = 48])
  have n: "le64 (Fin False min_normal) (Fin False (51 / 2))"
    by (simp add: le64_def min_normal_def min_sub_def)
  have s1: "div64 (Fin False 1) (Fin False 5) = Fin False (3602879701896397 / 18014398509481984)"
    by (simp add: div64_def rhe_def rmag_0 rmag_frac [where n = 55] round64_def)
  have s2: "mul64 (Fin False (3602879701896397 / 18014398509481984)) (Fin False (7656119366529843 / 9007199254740992)) = Fin False (6124895493223875 / 36028797018963968)"
    by (simp add: mul64_def rhe_def rmag_0 rmag_frac [where n = 55] round64_def)
  have s3: "sub64 (Fin False 1) (Fin False (6124895493223875 / 36028797018963968)) = Fin False (7475975381435023 / 9007199254740992)"
    by (simp add: add64_def rhe_def rmag_0 rmag_frac [where n = 53] round64_def sub64_def)
  have s4: "mul64 (Fin False (51 / 2)) (Fin False (7475975381435023 / 9007199254740992)) = Fin False (2978708941040517 / 140737488355328)"
    by (simp add: mul64_def rhe_def rmag_0 rmag_frac [where n = 48] round64_def)
  have s5: "sub64 (Fin False (51 / 2)) (Fin False (2978708941040517 / 140737488355328)) = Fin False (610097012020347 / 140737488355328)"
    by (simp add: add64_def rhe_def rmag_0 rmag_frac [where n = 50] round64_def sub64_def)
  have s6: "div64 (Fin False (610097012020347 / 140737488355328)) (Fin False (51 / 2)) = Fin False (1531223873305969 / 9007199254740992)"
    by (simp add: div64_def rhe_def rmag_0 rmag_frac [where n = 55] round64_def)
  have s7: "mul64 (Fin False (1531223873305969 / 9007199254740992)) (Fin False 100) = Fin False (4785074604081153 / 281474976710656)"
    by (simp add: mul64_def rhe_def rmag_0 rmag_frac [where n = 48] round64_def)
  have s8: "mul64 (Fin False (3602879701896397 / 18014398509481984)) (Fin False 100) = Fin False 20"
    by (simp add: mul64_def rhe_def rmag_0 rmag_frac [where n = 48] round64_def)
  have s9: "add64 (Fin False 1) (Fin False (6124895493223875 / 36028797018963968)) = Fin False (658651445502935 / 562949953421312)"
    by (simp add: add64_def rhe_def rmag_0 rmag_frac [where n = 52] round64_def)
  have s10: "mul64 (Fin False (51 / 2)) (Fin False (658651445502935 / 562949953421312)) = Fin False (8397805930162421 / 281474976710656)"
    by (simp add: mul64_def rhe_def rmag_0 rmag_frac [where n = 48] round64_def)
  have s11: "sub64 (Fin False (51 / 2)) (Fin False (8397805930162421 / 281474976710656)) = Fin True (1220194024040693 / 281474976710656)"
    by (simp add: add64_def rhe_def rmag_0 rmag_frac [where n = 50] round64_def sub64_def)
  have s12: "div64 (Fin False (1220194024040693 / 281474976710656)) (Fin False (51 / 2)) = Fin False (6124895493223871 / 36028797018963968)"
    by (simp add: div64_def rhe_def rmag_0 rmag_frac [where n = 55] round64_def)
  have s13: "mul64 (Fin False (6124895493223871 / 36028797018963968)) (Fin False 100) = Fin False (4785074604081149 / 281474976710656)"
    by (simp add: mul64_def rhe_def rmag_0 rmag_frac [where n = 48] round64_def)
  have long: "calculateLiquidationPrice64
       \<lparr> asset = ''AVAX'', collateral = Fin False 1000, leverage = Fin False 5,
         isLong = True, entryPrice = Fin False (51 / 2) \<rparr>
     = Inr \<lparr> liquidationPrice = Fin False (2978708941040517 / 140737488355328),
            distanceToLiquidation = Fin False (610097012020347 / 140737488355328),
            distancePercentage = Fin False (4785074604081153 / 281474976710656),
            marginRatio = Fin False 20 \<rparr>"
    by (simp add: calculateLiquidationPrice64_def Let_def findAsset_AVAX lit_1 lit_100
        lit_threshold threshold64_def
        s1 s2 s3 s4 s5 s6 s7 s8 s9 s10 s11 s12 s13)
  have short: "calculateLiquidationPrice64
       \<lparr> asset = ''AVAX'', collateral = Fin False 1000, leverage = Fin False 5,
         isLong = False, entryPrice = Fin False (51 / 2) \<rparr>
     = Inr \<lparr> liquidationPrice = Fin False (8397805930162421 / 281474976710656),
            distanceToLiquidation = Fin False (1220194024040693 / 281474976710656),
            distancePercentage = Fin False (4785074604081149 / 281474976710656),
            marginRatio = Fin False 20 \<rparr>"
    by (simp add: calculateLiquidationPrice64_def Let_def findAsset_AVAX lit_1 lit_100
        lit_threshold threshold64_def
        s1 s2 s3 s4 s5 s6 s7 s8 s9 s10 s11 s12 s13)
  show ?thesis
    using calculateLiquidationPrice64_side_of_entry
            [of "\<lparr> asset = ''AVAX'', collateral = Fin False 1000, leverage = Fin False 5,
                 isLong = True, entryPrice = Fin False (51 / 2) \<rparr>"]
          calculateLiquidationPrice64_side_of_entry
            [of "\<lparr> asset = ''AVAX'', collateral = Fin False 1000, leverage = Fin False 5,
                 isLong = False, entryPrice = Fin False (51 / 2) \<rparr>"]
          supported_AVAX d1 d2 d3 n long short
    by (simp add: lit_0 lit_1 lit_50 gt64_def lt64_def le64_def)
qed

subsection \<open>The distance to liquidation and the leverage\<close>





section \<open>The fee calculator on binary64 values\<close>

lemma add64_commute: "add64 x y = add64 y x"
  by (cases x; cases y) (auto simp: add64_def add.commute)

lemma add64_mono_left:
  assumes "nn x" and "nn y" and "nn z" and "le64 x y"
  shows "le64 (add64 x z) (add64 y z)"
  using add64_mono_right [OF assms] by (simp only: add64_commute [of _ z])

lemma le64_trans: "le64 x y \<Longrightarrow> le64 y z \<Longrightarrow> le64 x z"
  by (cases x; cases y; cases z) (auto simp: le64_def split: if_splits)

lemma add64_mono:
  assumes "nn x1" and "nn x2" and "nn y1" and "nn y2" and "le64 x1 x2" and "le64 y1 y2"
  shows "le64 (add64 x1 y1) (add64 x2 y2)"
proof -
  have "le64 (add64 x1 y1) (add64 x1 y2)"
    using assms(3,4,1,6) by (rule add64_mono_right)
  moreover have "le64 (add64 x1 y2) (add64 x2 y2)"
    using assms(1,2,4,5) by (rule add64_mono_left)
  ultimately show ?thesis by (rule le64_trans)
qed

lemma mul64_mono_right_finite:
  assumes "nn x" and "nn y" and "le64 x y" and "\<not> isInf y" and "0 \<le> c"
  shows "le64 (mul64 (Fin False c) x) (mul64 (Fin False c) y)"
proof -
  from nn_le_mag [OF assms(1,2,3,4)] have f: "\<not> isInf x" "mag x \<le> mag y" by simp_all
  from f(1) assms(1) obtain s a where x: "x = Fin s a" "0 \<le> a" "s \<longrightarrow> a = 0"
    by (cases x) auto
  from assms(4,2) obtain t b where y: "y = Fin t b" "0 \<le> b" "t \<longrightarrow> b = 0"
    by (cases y) auto
  have "le64 (round64 (False \<noteq> s) (c * a)) (round64 (False \<noteq> t) (c * b))"
    using x y f(2) assms(5) by (intro le64_round64) (auto simp: mult_left_mono)
  then show ?thesis by (simp add: x y mul64_def)
qed

lemma nn_of_nonneg:
  assumes "is_double x" and "le64 (Fin False 0) x"
  shows "nn x"
  using assms by (cases x) (auto simp: le64_def split: if_splits)

lemma nn_of_above:
  assumes "nn x" and "le64 x y" and "is_double y"
  shows "nn y"
  using assms by (cases x; cases y) (auto simp: le64_def split: if_splits)

lemma positionSize64_finite:
  assumes "is_double c" and "is_double l"
    and "lt64 (Fin False 0) c" and "le64 (Fin False 1) l" and "isFinite (mul64 c l)"
  shows "\<exists>P. mul64 c l = Fin False P \<and> 0 \<le> P \<and> rmag P = P \<and> P < 2 ^ 1024"
proof -
  from positive_cases [OF assms(1,3)] at_least_cases [OF assms(2,4)] assms(5)
  obtain mc ml where c: "c = Fin False mc" "0 < mc" and l: "l = Fin False ml" "1 \<le> ml"
    by (auto simp: mul64_def)
  have ps: "mul64 c l = round64 False (mc * ml)" by (simp add: c l mul64_def)
  with assms(5) have lt: "rmag (mc * ml) < 2 ^ 1024"
    by (simp add: round64_def split: if_splits)
  with ps have "mul64 c l = Fin False (rmag (mc * ml))" by (simp add: round64_def)
  moreover have "0 \<le> rmag (mc * ml)" using c(2) l(2) by (intro rmag_nonneg) simp
  moreover have "rmag (rmag (mc * ml)) = rmag (mc * ml)" by (rule rmag_idem)
  ultimately show ?thesis using lt by blast
qed

lemma hourly_fee64:
  assumes "0 \<le> P" and "rmag P = P" and "P < 2 ^ 1024"
  shows "mul64 (Fin False P) (lit (1 / 10000)) = Fin False (rmag (P * rate64))"
    and "0 \<le> rmag (P * rate64)"
proof -
  have "P * rate64 \<le> P * 1"
    using assms(1) rate64_bounds by (intro mult_left_mono) simp_all
  then have "P * rate64 \<le> P" by simp
  then have "round64 False (P * rate64) = Fin False (rmag (P * rate64))"
    using assms(2,3) by (rule round64_Fin_le(1))
  then show "mul64 (Fin False P) (lit (1 / 10000)) = Fin False (rmag (P * rate64))"
    by (simp add: lit_rate mul64_def)
  show "0 \<le> rmag (P * rate64)"
    using assms(1) rate64_bounds by (intro rmag_nonneg) simp
qed

lemma totalFees64_unfold:
  "totalFees (calculateTotalFees64 p h) =
     add64 (add64 (mul64 (mul64 (collateral p) (leverage p)) (lit (1 / 10000)))
                  (mul64 (mul64 (mul64 (collateral p) (leverage p)) (lit (1 / 10000))) h))
           (mul64 (mul64 (mul64 (collateral p) (leverage p)) (lit (1 / 10000))) h)"
  by (simp add: calculateTotalFees64_def Let_def FEE_STRUCTURE_def)

lemma positionFee64_unfold:
  "FeeResult.positionFee (calculateTotalFees64 p h) =
     mul64 (mul64 (collateral p) (leverage p)) (lit (1 / 10000))"
  by (simp add: calculateTotalFees64_def Let_def FEE_STRUCTURE_def)

text \<open>
  Claim C7 says that \<^verbatim>\<open>totalFees\<close> does not decrease when \<^verbatim>\<open>hours\<close> grows. On
  binary64 values the position size can overflow: with collateral 1e308 and leverage 50
  it is \<^verbatim>\<open>Infinity\<close>, the hourly fees for 0 hours are \<^verbatim>\<open>Infinity * 0\<close>, which is NaN, and
  so is their total, while for 1 hour the total is \<^verbatim>\<open>Infinity\<close>; \<^verbatim>\<open>NaN <= Infinity\<close> is
  false.
\<close>

theorem calculateTotalFees64_monotone_counterexample:
  "is_double (Fin False (156575653125701 * 2 ^ 976))
   \<and> is_double (Fin False 50)
   \<and> gt64 (Fin False (156575653125701 * 2 ^ 976)) (lit 0)
   \<and> le64 (lit 1) (Fin False 50)
   \<and> le64 (lit 0) (Fin False 0) \<and> le64 (Fin False 0) (Fin False 1)
   \<and> calculateTotalFees64
       \<lparr> asset = ''AVAX'', collateral = Fin False (156575653125701 * 2 ^ 976), leverage = Fin False 50,
         isLong = True, entryPrice = Fin False (51 / 2) \<rparr> (Fin False 0)
     = \<lparr> positionFee = Inf False,
        borrowingFee = NaN,
        fundingFee = NaN,
        totalFees = NaN \<rparr>
   \<and> calculateTotalFees64
       \<lparr> asset = ''AVAX'', collateral = Fin False (156575653125701 * 2 ^ 976), leverage = Fin False 50,
         isLong = True, entryPrice = Fin False (51 / 2) \<rparr> (Fin False 1)
     = \<lparr> positionFee = Inf False,
        borrowingFee = Inf False,
        fundingFee = Inf False,
        totalFees = Inf False \<rparr>
   \<and> \<not> le64 NaN (Inf False)"
proof -
  have d1: "is_double (Fin False (156575653125701 * 2 ^ 976))"
    by (simp add: rmag_int [where n = 971])
  have d2: "is_double (Fin False 50)"
    by (simp add: rmag_frac [where n = 47])
  have s1: "mul64 (Fin False (156575653125701 * 2 ^ 976)) (Fin False 50) = Inf False"
    by (simp add: mul64_def rhe_def rmag_0 rmag_int [where n = 976] round64_def)
  have s2: "mul64 (Inf False) (Fin False (7378697629483821 / 73786976294838206464)) = Inf False"
    by (simp add: mul64_def rhe_def rmag_0 round64_def)
  have s3: "mul64 (Inf False) (Fin False 0) = NaN"
    by (simp add: mul64_def rhe_def rmag_0 round64_def)
  have s4: "add64 (Inf False) (NaN) = NaN"
    by (simp add: add64_def rhe_def rmag_0 round64_def)
  have s5: "add64 (NaN) (NaN) = NaN"
    by (simp add: add64_def rhe_def rmag_0 round64_def)
  have s6: "mul64 (Inf False) (Fin False 1) = Inf False"
    by (simp add: mul64_def rhe_def rmag_0 round64_def)
  have s7: "add64 (Inf False) (Inf False) = Inf False"
    by (simp add: add64_def rhe_def rmag_0 round64_def)
  show ?thesis
    using d1 d2
    by (simp add: calculateTotalFees64_def Let_def FEE_STRUCTURE_def lit_rate rate64_def
        lit_0 lit_1 gt64_def lt64_def le64_def s1 s2 s3 s4 s5 s6 s7 del: power_numeral)
qed

text \<open>
  Claim C7, amended. For binary64 values with collateral \<open>> 0\<close> and leverage \<open>\<ge> 1\<close>
  whose product, the position size, does not overflow, \<^verbatim>\<open>totalFees\<close> does not decrease
  when \<^verbatim>\<open>hours\<close> grows from \<open>h1 \<ge> 0\<close> to a finite \<open>h2 \<ge> h1\<close>; and \<^verbatim>\<open>positionFee\<close>
  is the same for every value of \<^verbatim>\<open>hours\<close>: it is \<^verbatim>\<open>collateral * leverage * 0.0001\<close>.
\<close>

theorem calculateTotalFees64_monotone_in_hours:
  assumes "is_double (collateral p)" and "is_double (leverage p)"
    and "is_double h1" and "is_double h2"
    and "gt64 (collateral p) (lit 0)" and "le64 (lit 1) (leverage p)"
    and "le64 (lit 0) h1" and "le64 h1 h2"
    and "isFinite (mul64 (collateral p) (leverage p))" and "isFinite h2"
  shows "le64 (totalFees (calculateTotalFees64 p h1)) (totalFees (calculateTotalFees64 p h2))
     \<and> FeeResult.positionFee (calculateTotalFees64 p h1)
         = FeeResult.positionFee (calculateTotalFees64 p h2)
     \<and> FeeResult.positionFee (calculateTotalFees64 p h)
         = mul64 (mul64 (collateral p) (leverage p)) (lit (1 / 10000))"
proof -
  from positionSize64_finite [of "collateral p" "leverage p"] assms(1,2,5,6,9)
  obtain P where P: "mul64 (collateral p) (leverage p) = Fin False P"
    "0 \<le> P" "rmag P = P" "P < 2 ^ 1024"
    by (auto simp: gt64_def lit_0 lit_1)
  define a where "a = rmag (P * rate64)"
  have A: "mul64 (mul64 (collateral p) (leverage p)) (lit (1 / 10000)) = Fin False a"
    and a0: "0 \<le> a"
    unfolding P(1) a_def using P(2,3,4) by (rule hourly_fee64)+
  have nA: "nn (Fin False a)" using a0 by simp
  have n1: "nn h1" using assms(3,7) by (intro nn_of_nonneg) (simp_all add: lit_0)
  have n2: "nn h2" using n1 assms(8,4) by (rule nn_of_above)
  have f2: "\<not> isInf h2" using assms(10) by (cases h2) simp_all
  from nn_le_mag [OF n1 n2 assms(8) f2] have f1: "\<not> isInf h1" by simp
  have B: "le64 (mul64 (Fin False a) h1) (mul64 (Fin False a) h2)"
    using n1 n2 assms(8) f2 a0 by (rule mul64_mono_right_finite)
  have nB: "nn (mul64 (Fin False a) h1)" "nn (mul64 (Fin False a) h2)"
    using nA n1 n2 f1 f2 by (auto intro!: mul64_nn)
  have T: "le64 (add64 (Fin False a) (mul64 (Fin False a) h1))
      (add64 (Fin False a) (mul64 (Fin False a) h2))"
    using nB nA B by (intro add64_mono_right)
  have nT: "nn (add64 (Fin False a) (mul64 (Fin False a) h1))"
    "nn (add64 (Fin False a) (mul64 (Fin False a) h2))"
    using nA nB by (simp_all add: add64_nn)
  have "le64 (add64 (add64 (Fin False a) (mul64 (Fin False a) h1)) (mul64 (Fin False a) h1))
      (add64 (add64 (Fin False a) (mul64 (Fin False a) h2)) (mul64 (Fin False a) h2))"
    using nT(1) nT(2) nB(1) nB(2) T B by (rule add64_mono)
  then have "le64 (totalFees (calculateTotalFees64 p h1)) (totalFees (calculateTotalFees64 p h2))"
    by (simp only: totalFees64_unfold A)
  then show ?thesis by (simp only: positionFee64_unfold simp_thms)
qed

text \<open>
  The amended claim at position size 5000 for 1 hour against 24 hours: the totals are
  1.5 and 24.5, the position fee is 0.5 both times.
\<close>

theorem calculateTotalFees64_monotone_in_hours_witness:
  "le64 (totalFees (calculateTotalFees64
       \<lparr> asset = ''AVAX'', collateral = Fin False 1000, leverage = Fin False 5,
         isLong = True, entryPrice = Fin False (51 / 2) \<rparr> (Fin False 1)))
     (totalFees (calculateTotalFees64
       \<lparr> asset = ''AVAX'', collateral = Fin False 1000, leverage = Fin False 5,
         isLong = True, entryPrice = Fin False (51 / 2) \<rparr> (Fin False 24)))
   \<and> calculateTotalFees64
       \<lparr> asset = ''AVAX'', collateral = Fin False 1000, leverage = Fin False 5,
         isLong = True, entryPrice = Fin False (51 / 2) \<rparr> (Fin False 1)
     = \<lparr> positionFee = Fin False (1 / 2),
        borrowingFee = Fin False (1 / 2),
        fundingFee = Fin False (1 / 2),
        totalFees = Fin False (3 / 2) \<rparr>
   \<and> calculateTotalFees64
       \<lparr> asset = ''AVAX'', collateral = Fin False 1000, leverage = Fin False 5,
         isLong = True, entryPrice = Fin False (51 / 2) \<rparr> (Fin False 24)
     = \<lparr> positionFee = Fin False (1 / 2),
        borrowingFee = Fin False 12,
        fundingFee = Fin False 12,
        totalFees = Fin False (49 / 2) \<rparr>"
proof -
  have d1: "is_double (Fin False 1000)"
    by (simp add: rmag_frac [where n = 43])
  have d2: "is_double (Fin False 5)"
    by (simp add: rmag_frac [where n = 50])
  have d3: "is_double (Fin False 1)"
    by (simp add: rmag_frac [where n = 52])
  have d4: "is_double (Fin False 24)"
    by (simp add: rmag_frac [where n = 48])
  have s1: "mul64 (Fin False 1000) (Fin False 5) = Fin False 5000"
    by (simp add: mul64_def rhe_def rmag_0 rmag_frac [where n = 40] round64_def)
  have s2: "mul64 (Fin False 5000) (Fin False (7378697629483821 / 73786976294838206464)) = Fin False (1 / 2)"
    by (simp add: mul64_def rhe_def rmag_0 rmag_frac [where n = 53] round64_def)
  have s3: "mul64 (Fin False (1 / 2)) (Fin False 1) = Fin False (1 / 2)"
    by (simp add: mul64_def rhe_def rmag_0 rmag_frac [where n = 53] round64_def)
  have s4: "add64 (Fin False (1 / 2)) (Fin False (1 / 2)) = Fin False 1"
    by (simp add: add64_def rhe_def rmag_0 rmag_frac [where n = 52] round64_def)
  have s5: "add64 (Fin False 1) (Fin False (1 / 2)) = Fin False (3 / 2)"
    by (simp add: add64_def rhe_def rmag_0 rmag_frac [where n = 52] round64_def)
  have s6: "mul64 (Fin False (1 / 2)) (Fin False 24) = Fin False 12"
    by (simp add: mul64_def rhe_def rmag_0 rmag_frac [where n = 49] round64_def)
  have s7: "add64 (Fin False (1 / 2)) (Fin False 12) = Fin False (25 / 2)"
    by (simp add: add64_def rhe_def rmag_0 rmag_frac [where n = 49] round64_def)
  have s8: "add64 (Fin False (25 / 2)) (Fin False 12) = Fin False (49 / 2)"
    by (simp add: add64_def rhe_def rmag_0 rmag_frac [where n = 48] round64_def)
  have one: "calculateTotalFees64
       \<lparr> asset = ''AVAX'', collateral = Fin False 1000, leverage = Fin False 5,
         isLong = True, entryPrice = Fin False (51 / 2) \<rparr> (Fin False 1)
     = \<lparr> positionFee = Fin False (1 / 2),
        borrowingFee = Fin False (1 / 2),
        fundingFee = Fin False (1 / 2),
        totalFees = Fin False (3 / 2) \<rparr>"
    by (simp add: calculateTotalFees64_def Let_def FEE_STRUCTURE_def lit_rate rate64_def
        s1 s2 s3 s4 s5 s6 s7 s8)
  have day: "calculateTotalFees64
       \<lparr> asset = ''AVAX'', collateral = Fin False 1000, leverage = Fin False 5,
         isLong = True, entryPrice = Fin False (51 / 2) \<rparr> (Fin False 24)
     = \<lparr> positionFee = Fin False (1 / 2),
        borrowingFee = Fin False 12,
        fundingFee = Fin False 12,
        totalFees = Fin False (49 / 2) \<rparr>"
    by (simp add: calculateTotalFees64_def Let_def FEE_STRUCTURE_def lit_rate rate64_def
        s1 s2 s3 s4 s5 s6 s7 s8)
  have size: "isFinite (mul64 (Fin False 1000) (Fin False 5))"
    by (simp add: s1)
  show ?thesis
    using calculateTotalFees64_monotone_in_hours
            [of "\<lparr> asset = ''AVAX'', collateral = Fin False 1000, leverage = Fin False 5,
                 isLong = True, entryPrice = Fin False (51 / 2) \<rparr>"
                "Fin False 1" "Fin False 24"]
          d1 d2 d3 d4 size one day
    by (simp add: lit_0 lit_1 gt64_def lt64_def le64_def)
qed

end
